theory Spec2Isabelle
  imports Main
begin

section \<open>Strings\<close>

text \<open>
  A JavaScript string is a sequence of UTF-16 code units.  Code units are natural numbers
  here, so the pound sign is the single unit 163 (U+00A3).  A source literal that is pure
  ASCII is written \<open>u ''...''\<close>.
\<close>

type_synonym ustring = "nat list"

definition u :: "string \<Rightarrow> ustring" where
  "u s = map of_char s"

text \<open>\<^verbatim>\<open>String.prototype.includes\<close>: the needle occurs somewhere in the haystack.\<close>

fun starts_with :: "ustring \<Rightarrow> ustring \<Rightarrow> bool" where
  "starts_with s [] = True"
| "starts_with [] (y # ys) = False"
| "starts_with (x # xs) (y # ys) = (x = y \<and> starts_with xs ys)"

fun str_includes :: "ustring \<Rightarrow> ustring \<Rightarrow> bool" where
  "str_includes [] needle = starts_with [] needle"
| "str_includes (x # xs) needle = (starts_with (x # xs) needle \<or> str_includes xs needle)"

text \<open>The decimal rendering of a non-negative integer, as a template literal prints
  \<^verbatim>\<open>Date.now()\<close>.\<close>

fun decimal :: "nat \<Rightarrow> ustring" where
  "decimal n = (if n < 10 then [48 + n] else decimal (n div 10) @ [48 + n mod 10])"

declare decimal.simps [simp del]

text \<open>A value of type \<^verbatim>\<open>string | undefined\<close> is truthy when it is a non-empty string.\<close>

definition truthy :: "ustring option \<Rightarrow> bool" where
  "truthy v = (case v of None \<Rightarrow> False | Some s \<Rightarrow> s \<noteq> [])"

section \<open>Regular expressions of the confirmation extractor\<close>

text \<open>
  The eight patterns of \<^verbatim>\<open>extractConfirmation\<close> are built from single-character atoms
  under greedy quantifiers and hold one capture group each.  A pattern is a list of items;
  \<open>rmatch\<close> is the backtracking matcher of ECMAScript restricted to these items: a greedy
  quantifier first takes one more character and gives it back when the rest fails.  The
  matcher threads the input left at the opening parenthesis (\<open>g\<close>) and the text captured
  at the closing one (\<open>cap\<close>), and returns capture 1.
\<close>

datatype item =
    Atom "nat \<Rightarrow> bool"
  | Star "nat \<Rightarrow> bool"
  | Opt "nat \<Rightarrow> bool"
  | GroupOpen
  | GroupClose

fun rmatch :: "item list \<Rightarrow> ustring \<Rightarrow> ustring \<Rightarrow> ustring \<Rightarrow> ustring option" where
  "rmatch [] s g cap = Some cap"
| "rmatch (GroupOpen # r) s g cap = rmatch r s s cap"
| "rmatch (GroupClose # r) s g cap = rmatch r s g (take (length g - length s) g)"
| "rmatch (Atom c # r) [] g cap = None"
| "rmatch (Atom c # r) (x # xs) g cap = (if c x then rmatch r xs g cap else None)"
| "rmatch (Opt c # r) [] g cap = rmatch r [] g cap"
| "rmatch (Opt c # r) (x # xs) g cap =
     (if c x
      then (case rmatch r xs g cap of Some m \<Rightarrow> Some m | None \<Rightarrow> rmatch r (x # xs) g cap)
      else rmatch r (x # xs) g cap)"
| "rmatch (Star c # r) [] g cap = rmatch r [] g cap"
| "rmatch (Star c # r) (x # xs) g cap =
     (if c x
      then (case rmatch (Star c # r) xs g cap of Some m \<Rightarrow> Some m
            | None \<Rightarrow> rmatch r (x # xs) g cap)
      else rmatch r (x # xs) g cap)"

text \<open>\<^verbatim>\<open>text.match(pattern)\<close> without the global flag: the match at the leftmost start
  position, every position up to the end of the text being tried; the result is
  \<^verbatim>\<open>match[1]\<close>.\<close>

fun regexp_exec :: "item list \<Rightarrow> ustring \<Rightarrow> ustring option" where
  "regexp_exec p [] = rmatch p [] [] []"
| "regexp_exec p (x # xs) =
     (case rmatch p (x # xs) [] [] of Some m \<Rightarrow> Some m | None \<Rightarrow> regexp_exec p xs)"

subsection \<open>Character classes\<close>

text \<open>Canonicalisation under the \<^verbatim>\<open>i\<close> flag without the \<^verbatim>\<open>u\<close> flag: a code unit
  above 127 never canonicalises to an ASCII one, so only the ASCII letters fold.\<close>

definition upcase :: "nat \<Rightarrow> nat" where
  "upcase c = (if 97 \<le> c \<and> c \<le> 122 then c - 32 else c)"

definition lit :: "char \<Rightarrow> nat \<Rightarrow> bool" where
  "lit a c = (c = of_char a)"

definition lit_ci :: "char \<Rightarrow> nat \<Rightarrow> bool" where
  "lit_ci a c = (upcase c = upcase (of_char a))"

definition is_digit :: "nat \<Rightarrow> bool" where
  "is_digit c = (48 \<le> c \<and> c \<le> 57)"

definition is_upper :: "nat \<Rightarrow> bool" where
  "is_upper c = (65 \<le> c \<and> c \<le> 90)"

definition is_upper_ci :: "nat \<Rightarrow> bool" where
  "is_upper_ci c = is_upper (upcase c)"

text \<open>\<^verbatim>\<open>\s\<close>: the ECMAScript white space and line terminator code units.\<close>

definition is_space :: "nat \<Rightarrow> bool" where
  "is_space c =
     (c \<in> {9, 10, 11, 12, 13, 32, 160, 5760, 8232, 8233, 8239, 8287, 12288, 65279}
      \<or> (8192 \<le> c \<and> c \<le> 8202))"

text \<open>\<^verbatim>\<open>[:\s#]\<close>, \<^verbatim>\<open>[:\s]\<close>, \<^verbatim>\<open>[\<pounds>\$]\<close>, \<^verbatim>\<open>[\<pounds>]\<close> and \<^verbatim>\<open>[\d.,]\<close>.\<close>

definition sep_hash :: "nat \<Rightarrow> bool" where
  "sep_hash c = (c = 58 \<or> is_space c \<or> c = 35)"

definition sep_colon :: "nat \<Rightarrow> bool" where
  "sep_colon c = (c = 58 \<or> is_space c)"

definition pound_or_dollar :: "nat \<Rightarrow> bool" where
  "pound_or_dollar c = (c = 163 \<or> c = 36)"

definition pound_sign :: "nat \<Rightarrow> bool" where
  "pound_sign c = (c = 163)"

definition amount_char :: "nat \<Rightarrow> bool" where
  "amount_char c = (is_digit c \<or> c = 46 \<or> c = 44)"

subsection \<open>Pattern builders\<close>

definition word_ci :: "string \<Rightarrow> item list" where
  "word_ci s = map (\<lambda>a. Atom (lit_ci a)) s"

definition word_cs :: "string \<Rightarrow> item list" where
  "word_cs s = map (\<lambda>a. Atom (lit a)) s"

definition exactly :: "nat \<Rightarrow> (nat \<Rightarrow> bool) \<Rightarrow> item list" where
  "exactly n c = replicate n (Atom c)"

definition one_or_more :: "(nat \<Rightarrow> bool) \<Rightarrow> item list" where
  "one_or_more c = [Atom c, Star c]"

subsection \<open>The patterns, in the order of the source arrays\<close>

text \<open>\<^verbatim>\<open>/Tracking[:\s#]*([A-Z]{2}\d{9}GB)/i\<close>\<close>

definition tracking_labelled :: "item list" where
  "tracking_labelled =
     word_ci ''Tracking'' @ [Star sep_hash, GroupOpen] @ exactly 2 is_upper_ci
       @ exactly 9 is_digit @ word_ci ''GB'' @ [GroupClose]"

text \<open>\<^verbatim>\<open>/Reference[:\s#]*([A-Z]{2}\d{9}GB)/i\<close>\<close>

definition reference_labelled :: "item list" where
  "reference_labelled =
     word_ci ''Reference'' @ [Star sep_hash, GroupOpen] @ exactly 2 is_upper_ci
       @ exactly 9 is_digit @ word_ci ''GB'' @ [GroupClose]"

text \<open>\<^verbatim>\<open>/([A-Z]{2}\d{9}GB)/\<close>\<close>

definition bare_tracking :: "item list" where
  "bare_tracking =
     [GroupOpen] @ exactly 2 is_upper @ exactly 9 is_digit @ word_cs ''GB'' @ [GroupClose]"

text \<open>\<^verbatim>\<open>/Barcode[:\s#]*(\d+)/i\<close>\<close>

definition barcode_labelled :: "item list" where
  "barcode_labelled =
     word_ci ''Barcode'' @ [Star sep_hash, GroupOpen] @ one_or_more is_digit @ [GroupClose]"

definition trackingPatterns :: "item list list" where
  "trackingPatterns = [tracking_labelled, reference_labelled, bare_tracking, barcode_labelled]"

text \<open>\<^verbatim>\<open>/Total[:\s]*[\<pounds>\$]?([\d.,]+)/i\<close>, and the same for Cost and Price.\<close>

definition total_labelled :: "item list" where
  "total_labelled =
     word_ci ''Total'' @ [Star sep_colon, Opt pound_or_dollar, GroupOpen]
       @ one_or_more amount_char @ [GroupClose]"

definition cost_labelled :: "item list" where
  "cost_labelled =
     word_ci ''Cost'' @ [Star sep_colon, Opt pound_or_dollar, GroupOpen]
       @ one_or_more amount_char @ [GroupClose]"

definition price_labelled :: "item list" where
  "price_labelled =
     word_ci ''Price'' @ [Star sep_colon, Opt pound_or_dollar, GroupOpen]
       @ one_or_more amount_char @ [GroupClose]"

text \<open>\<^verbatim>\<open>/[\<pounds>]([\d.,]+)/\<close>\<close>

definition bare_pounds :: "item list" where
  "bare_pounds = [Atom pound_sign, GroupOpen] @ one_or_more amount_char @ [GroupClose]"

definition costPatterns :: "item list list" where
  "costPatterns = [total_labelled, cost_labelled, price_labelled, bare_pounds]"

text \<open>The loop \<^verbatim>\<open>for (const pattern of patterns) { const match = text.match(pattern);
  if (match) { ... = match[1]; break; } }\<close>.\<close>

fun first_match :: "item list list \<Rightarrow> ustring \<Rightarrow> ustring option" where
  "first_match [] text = None"
| "first_match (p # ps) text =
     (case regexp_exec p text of Some m \<Rightarrow> Some m | None \<Rightarrow> first_match ps text)"

text \<open>The function evaluated in the page by \<^verbatim>\<open>extractConfirmation\<close>, on the page's
  \<^verbatim>\<open>innerText\<close>: the pair (trackingNumber, cost), a cost being the capture behind a
  pound sign.\<close>

definition extractFromText :: "ustring \<Rightarrow> ustring option \<times> ustring option" where
  "extractFromText text =
     (first_match trackingPatterns text,
      map_option (\<lambda>m. 163 # m) (first_match costPatterns text))"

section \<open>The world of the client\<close>

text \<open>
  The client talks to three things: the Playwright library (a browser outside the
  process), the session file \<^verbatim>\<open>/tmp/royalmail-session.json\<close>, and the clock.

  Every awaited Playwright call is an \<open>event\<close>.  The library is a parameter of the
  model: an environment \<open>env\<close> gives the reply to a call as a function of the whole
  history of calls made so far, the call itself being the last entry.  A reply is either
  an exception (its message, on the left) or a value.  Nothing is assumed of the
  environment: any call may throw, and a page may answer differently after every action.

  The session file is part of the state.  Its content is either a descriptor, as this
  program writes it, or a content that cannot be used: one on which
  \<^verbatim>\<open>JSON.parse(readFileSync(SESSION_PATH, "utf-8"))\<close> throws, kept with the message of
  that exception.  Writing and deleting the file may fail: the environment says so, as a
  function of the history of Playwright calls, and a failed write or deletion leaves the
  file as it was.  \<^verbatim>\<open>existsSync\<close> does not throw.
\<close>

type_synonym browser = nat
type_synonym browser_context = nat
type_synonym page = nat
type_synonym element = nat
type_synonym download = nat
type_synonym exn = ustring

datatype event =
    ConnectOverCDP ustring
  | Launch
  | NewContext browser
  | NewPage browser_context
  | BrowserClose browser
  | Goto page ustring
  | WaitForTimeout page nat
  | Screenshot page ustring bool
  | Query page ustring
  | ElementQuery element ustring
  | GetAttribute element ustring
  | Fill element ustring
  | Click element
  | SelectOptionValue element ustring
  | SelectOptionLabel element ustring
  | WaitForLoginNavigation page
  | WaitForLoadState page
  | EvaluateInnerText page
  | WaitForDownloadEvent page
  | AwaitDownload page
  | SaveAs download ustring

record Config =
  username :: ustring
  password :: ustring

text \<open>
  \<open>connect_reply\<close>: the browser that \<^verbatim>\<open>connectOverCDP\<close> resolves to, with what
  \<^verbatim>\<open>contexts()\<close> and, for each context, \<^verbatim>\<open>pages()\<close> return.
  \<open>launch_reply\<close>: the launched browser with the value of \<^verbatim>\<open>wsEndpoint?.()\<close>.
  \<open>download_reply\<close>: the download with its \<^verbatim>\<open>suggestedFilename()\<close>.
  \<open>page_url\<close> is the synchronous getter \<^verbatim>\<open>page.url()\<close>, \<open>date_now\<close> is
  \<^verbatim>\<open>Date.now()\<close>, \<open>toISOString\<close> renders a time stamp, and \<open>config\<close> is the
  content of \<^verbatim>\<open>config.json\<close> as \<^verbatim>\<open>loadConfig\<close> returns it to the constructor.
  \<open>write_reply\<close> and \<open>unlink_reply\<close> say whether \<^verbatim>\<open>writeFileSync\<close> and
  \<^verbatim>\<open>unlinkSync\<close> on the session file succeed (one that throws leaves the file as it
  was).  \<open>toLowerCase\<close> is
  \<^verbatim>\<open>String.prototype.toLowerCase\<close>.  \<open>inherited_property\<close> gives, for a name that
  \<^verbatim>\<open>Object.prototype\<close> defines (such as \<^verbatim>\<open>constructor\<close>), the text that a template
  literal prints for that property, and \<open>None\<close> for every other name.
\<close>

record env =
  connect_reply :: "event list \<Rightarrow> exn + (browser \<times> (browser_context \<times> page list) list)"
  launch_reply :: "event list \<Rightarrow> exn + (browser \<times> ustring option)"
  handle_reply :: "event list \<Rightarrow> exn + nat"
  unit_reply :: "event list \<Rightarrow> exn + unit"
  query_reply :: "event list \<Rightarrow> exn + element option"
  attribute_reply :: "event list \<Rightarrow> exn + ustring option"
  text_reply :: "event list \<Rightarrow> exn + ustring"
  download_reply :: "event list \<Rightarrow> exn + (download \<times> ustring)"
  page_url :: "event list \<Rightarrow> page \<Rightarrow> ustring"
  date_now :: "event list \<Rightarrow> nat"
  toISOString :: "nat \<Rightarrow> ustring"
  config :: Config
  write_reply :: "event list \<Rightarrow> exn + unit"
  unlink_reply :: "event list \<Rightarrow> exn + unit"
  toLowerCase :: "ustring \<Rightarrow> ustring"
  inherited_property :: "ustring \<Rightarrow> ustring option"

record SessionInfo =
  wsEndpoint :: ustring
  createdAt :: ustring
  loggedIn :: bool
  formFilled :: bool
  labelGenerated :: bool

text \<open>What the session file holds: a descriptor, or a content on which
  \<^verbatim>\<open>JSON.parse(readFileSync(SESSION_PATH, "utf-8"))\<close> throws the given exception (a file
  that cannot be read or is not JSON).\<close>

datatype session_content = Unreadable exn | Descriptor SessionInfo

text \<open>\<^verbatim>\<open>Partial<SessionInfo>\<close>: the fields an update sets.\<close>

record SessionUpdate =
  set_wsEndpoint :: "ustring option"
  set_createdAt :: "ustring option"
  set_loggedIn :: "bool option"
  set_formFilled :: "bool option"
  set_labelGenerated :: "bool option"

definition no_update :: SessionUpdate where
  "no_update = \<lparr>set_wsEndpoint = None, set_createdAt = None, set_loggedIn = None,
                 set_formFilled = None, set_labelGenerated = None\<rparr>"

text \<open>The fields \<^verbatim>\<open>browser\<close>, \<^verbatim>\<open>context\<close> and \<^verbatim>\<open>page\<close> of the client object, the
  session file, and the history of Playwright calls.\<close>

record state =
  this_browser :: "browser option"
  this_context :: "browser_context option"
  this_page :: "page option"
  session_file :: "session_content option"
  trace :: "event list"

text \<open>The client as the constructor leaves it, in a process that finds the given
  session file.\<close>

definition new_client :: "session_content option \<Rightarrow> state" where
  "new_client file = \<lparr>this_browser = None, this_context = None, this_page = None,
                       session_file = file, trace = []\<rparr>"

subsection \<open>Computations that may throw\<close>

type_synonym 'a io = "state \<Rightarrow> (exn + 'a) \<times> state"

definition io_return :: "'a \<Rightarrow> 'a io" where
  "io_return x s = (Inr x, s)"

definition io_throw :: "exn \<Rightarrow> 'a io" where
  "io_throw e s = (Inl e, s)"

definition io_bind :: "'a io \<Rightarrow> ('a \<Rightarrow> 'b io) \<Rightarrow> 'b io" where
  "io_bind m f s = (case m s of (Inl e, s') \<Rightarrow> (Inl e, s') | (Inr x, s') \<Rightarrow> f x s')"

text \<open>\<^verbatim>\<open>try { m } catch (e) { h e }\<close>\<close>

definition io_catch :: "'a io \<Rightarrow> (exn \<Rightarrow> 'a io) \<Rightarrow> 'a io" where
  "io_catch m h s = (case m s of (Inl e, s') \<Rightarrow> h e s' | (Inr x, s') \<Rightarrow> (Inr x, s'))"

definition modify :: "(state \<Rightarrow> state) \<Rightarrow> unit io" where
  "modify f s = (Inr (), f s)"

text \<open>An awaited Playwright call: the event joins the history and the environment
  replies.\<close>

definition call :: "(event list \<Rightarrow> exn + 'a) \<Rightarrow> event \<Rightarrow> 'a io" where
  "call reply ev s = (reply (trace s @ [ev]), s\<lparr>trace := trace s @ [ev]\<rparr>)"

definition url :: "env \<Rightarrow> page \<Rightarrow> ustring io" where
  "url E p s = (Inr (page_url E (trace s) p), s)"

definition now :: "env \<Rightarrow> nat io" where
  "now E s = (Inr (date_now E (trace s)), s)"

subsection \<open>The session file\<close>

text \<open>\<^verbatim>\<open>existsSync(SESSION_PATH)\<close>\<close>

definition existsSession :: "bool io" where
  "existsSession s = (Inr (session_file s \<noteq> None), s)"

text \<open>\<^verbatim>\<open>if (existsSync(SESSION_PATH)) { session = JSON.parse(readFileSync(SESSION_PATH,
  "utf-8")); ... }\<close>: \<open>None\<close> when the file does not exist, the descriptor when it holds
  one, and the exception of \<^verbatim>\<open>JSON.parse\<close> or \<^verbatim>\<open>readFileSync\<close> otherwise.\<close>

definition readSession :: "SessionInfo option io" where
  "readSession s =
     (case session_file s of
        None \<Rightarrow> (Inr None, s)
      | Some (Unreadable e) \<Rightarrow> (Inl e, s)
      | Some (Descriptor d) \<Rightarrow> (Inr (Some d), s))"

text \<open>\<^verbatim>\<open>writeFileSync(SESSION_PATH, JSON.stringify(d))\<close>\<close>

definition writeSession :: "env \<Rightarrow> SessionInfo \<Rightarrow> unit io" where
  "writeSession E d s =
     (case write_reply E (trace s) of
        Inl e \<Rightarrow> (Inl e, s)
      | Inr _ \<Rightarrow> (Inr (), s\<lparr>session_file := Some (Descriptor d)\<rparr>))"

text \<open>\<^verbatim>\<open>unlinkSync(SESSION_PATH)\<close>\<close>

definition unlinkSession :: "env \<Rightarrow> unit io" where
  "unlinkSession E s =
     (case unlink_reply E (trace s) of
        Inl e \<Rightarrow> (Inl e, s)
      | Inr _ \<Rightarrow> (Inr (), s\<lparr>session_file := None\<rparr>))"

text \<open>\<^verbatim>\<open>Object.assign(session, updates)\<close>\<close>

definition assign :: "SessionInfo \<Rightarrow> SessionUpdate \<Rightarrow> SessionInfo" where
  "assign d upd =
     \<lparr>wsEndpoint = (case set_wsEndpoint upd of Some v \<Rightarrow> v | None \<Rightarrow> wsEndpoint d),
      createdAt = (case set_createdAt upd of Some v \<Rightarrow> v | None \<Rightarrow> createdAt d),
      loggedIn = (case set_loggedIn upd of Some v \<Rightarrow> v | None \<Rightarrow> loggedIn d),
      formFilled = (case set_formFilled upd of Some v \<Rightarrow> v | None \<Rightarrow> formFilled d),
      labelGenerated = (case set_labelGenerated upd of Some v \<Rightarrow> v | None \<Rightarrow> labelGenerated d)\<rparr>"

definition updateSession :: "env \<Rightarrow> SessionUpdate \<Rightarrow> unit io" where
  "updateSession E updates =
     io_bind readSession (\<lambda>file.
       case file of
         Some session \<Rightarrow> writeSession E (assign session updates)
       | None \<Rightarrow> io_return ())"

subsection \<open>Page acquisition\<close>

text \<open>The first half of \<^verbatim>\<open>ensureBrowser\<close>, the block under
  \<^verbatim>\<open>if (existsSync(SESSION_PATH))\<close>: \<open>Some p\<close> when \<^verbatim>\<open>return this.page\<close> is reached,
  \<open>None\<close> when control falls through to the launch.  Reading the file is inside the
  \<^verbatim>\<open>try\<close>.  The \<^verbatim>\<open>catch\<close> deletes the file and ignores a deletion that fails.\<close>

definition reconnect :: "env \<Rightarrow> page option io" where
  "reconnect E =
     io_bind existsSession (\<lambda>found.
       if \<not> found then io_return None
       else
           io_catch
             (io_bind readSession (\<lambda>file.
              case file of
                None \<Rightarrow> io_return None
              | Some session \<Rightarrow>
              io_bind (call (connect_reply E) (ConnectOverCDP (wsEndpoint session)))
                (\<lambda>(b, contexts).
              io_bind (modify (\<lambda>s. s\<lparr>this_browser := Some b\<rparr>)) (\<lambda>_.
              case contexts of
                [] \<Rightarrow> io_return None
              | (c, pages) # _ \<Rightarrow>
                  io_bind (modify (\<lambda>s. s\<lparr>this_context := Some c\<rparr>)) (\<lambda>_.
                  case pages of
                    [] \<Rightarrow> io_return None
                  | p # _ \<Rightarrow>
                      io_bind (modify (\<lambda>s. s\<lparr>this_page := Some p\<rparr>)) (\<lambda>_.
                      io_return (Some p)))))))
             (\<lambda>e. io_bind (io_catch (unlinkSession E) (\<lambda>ignored. io_return ()))
                    (\<lambda>_. io_return None)))"

text \<open>The second half: launch, new context, new page, and the session file when the
  browser reports an endpoint.\<close>

definition launchBrowser :: "env \<Rightarrow> page io" where
  "launchBrowser E =
     io_bind (call (launch_reply E) Launch) (\<lambda>(b, ws).
     io_bind (modify (\<lambda>s. s\<lparr>this_browser := Some b\<rparr>)) (\<lambda>_.
     io_bind (call (handle_reply E) (NewContext b)) (\<lambda>c.
     io_bind (modify (\<lambda>s. s\<lparr>this_context := Some c\<rparr>)) (\<lambda>_.
     io_bind (call (handle_reply E) (NewPage c)) (\<lambda>p.
     io_bind (modify (\<lambda>s. s\<lparr>this_page := Some p\<rparr>)) (\<lambda>_.
     io_bind
       (case ws of
          Some endpoint \<Rightarrow>
            if endpoint \<noteq> [] then
              io_bind (now E) (\<lambda>t.
              writeSession E \<lparr>wsEndpoint = endpoint, createdAt = toISOString E t,
                              loggedIn = False, formFilled = False, labelGenerated = False\<rparr>)
            else io_return ()
        | None \<Rightarrow> io_return ()) (\<lambda>_.
     io_return p)))))))"

definition ensureBrowser :: "env \<Rightarrow> page io" where
  "ensureBrowser E =
     io_bind (reconnect E) (\<lambda>reconnected.
       case reconnected of
         Some p \<Rightarrow> io_return p
       | None \<Rightarrow> launchBrowser E)"

section \<open>The client\<close>

subsection \<open>Constants and result types\<close>

definition SCREENSHOT_DIR :: ustring where
  "SCREENSHOT_DIR = u ''/home/USER/biz/.playwright-mcp''"

definition LABEL_DIR :: ustring where
  "LABEL_DIR = u ''/home/USER/biz/shipping-labels''"

definition ROYALMAIL_LOGIN_URL :: ustring where
  "ROYALMAIL_LOGIN_URL = u ''https://business.parcel.royalmail.com/''"

definition ROYALMAIL_CREATE_ORDER_URL :: ustring where
  "ROYALMAIL_CREATE_ORDER_URL = u ''https://business.parcel.royalmail.com/orders/single/create''"

definition SERVICE_CODES :: "(ustring \<times> ustring) list" where
  "SERVICE_CODES =
    [(u ''TRACKED24'', u ''Royal Mail Tracked 24''),
     (u ''TRACKED48'', u ''Royal Mail Tracked 48''),
     (u ''SPECIALDELIVERY9'', u ''Special Delivery Guaranteed by 9am''),
     (u ''SPECIALDELIVERY1'', u ''Special Delivery Guaranteed by 1pm''),
     (u ''SIGNED'', u ''Royal Mail Signed For 1st Class''),
     (u ''SIGNED2'', u ''Royal Mail Signed For 2nd Class'')]"

text \<open>\<^verbatim>\<open>SERVICE_CODES[code] || code\<close>: the table's own entry, else the property that the
  object inherits under that name, else the code itself.\<close>

definition serviceNameOf :: "env \<Rightarrow> ustring \<Rightarrow> ustring" where
  "serviceNameOf E code =
     (case map_of SERVICE_CODES code of
        Some n \<Rightarrow> n
      | None \<Rightarrow> (case inherited_property E code of Some inherited \<Rightarrow> inherited | None \<Rightarrow> code))"

text \<open>A JavaScript number, by the two things the client does with one: it tests its
  truthiness (neither zero nor NaN) and prints it with \<^verbatim>\<open>String\<close>.\<close>

datatype jsnumber = JSNumber (number_truthy: bool) (number_String: ustring)

record FormState =
  name :: ustring
  company :: "ustring option"
  address1 :: ustring
  address2 :: "ustring option"
  city :: ustring
  postcode :: ustring
  weight :: jsnumber
  service :: ustring
  reference :: "ustring option"

record CreateLabelOptions =
  name :: ustring
  company :: "ustring option"
  address1 :: ustring
  address2 :: "ustring option"
  city :: ustring
  postcode :: ustring
  email :: "ustring option"
  phone :: "ustring option"
  weight :: jsnumber
  length_cm :: "jsnumber option"
  width_cm :: "jsnumber option"
  height_cm :: "jsnumber option"
  service :: ustring
  reference :: "ustring option"
  contents :: "ustring option"

record ScreenshotOptions =
  filename :: "ustring option"
  fullPage :: "bool option"

record Result =
  success :: "bool option"
  error :: "bool option"
  message :: "ustring option"
  screenshot :: "ustring option"
  formState :: "FormState option"
  labelPath :: "ustring option"
  trackingNumber :: "ustring option"
  cost :: "ustring option"

definition empty_result :: Result where
  "empty_result = \<lparr>success = None, error = None, message = None, screenshot = None,
                    formState = None, labelPath = None, trackingNumber = None, cost = None\<rparr>"

text \<open>\<^verbatim>\<open>`${SCREENSHOT_DIR}/royalmail-${kind}-${Date.now()}.png`\<close>\<close>

definition screenshot_path :: "string \<Rightarrow> nat \<Rightarrow> ustring" where
  "screenshot_path kind t =
     SCREENSHOT_DIR @ u ''/royalmail-'' @ u kind @ u ''-'' @ decimal t @ u ''.png''"

text \<open>Taking a full-page picture named after the operation and the time; the path is
  returned.\<close>

definition capture :: "env \<Rightarrow> page \<Rightarrow> string \<Rightarrow> ustring io" where
  "capture E p kind =
     io_bind (now E) (\<lambda>t.
     io_bind (call (unit_reply E) (Screenshot p (screenshot_path kind t) True)) (\<lambda>_.
     io_return (screenshot_path kind t)))"

subsection \<open>Selector loops\<close>

text \<open>\<^verbatim>\<open>for (const selector of selectors) { try { const field = await page.$(selector);
  if (field) { await field.fill(value); filled = true; break; } } catch { continue; } }\<close>:
  the value of the flag after the loop.\<close>

fun fill_first :: "env \<Rightarrow> page \<Rightarrow> ustring list \<Rightarrow> ustring \<Rightarrow> bool io" where
  "fill_first E p [] v = io_return False"
| "fill_first E p (selector # selectors) v =
     io_bind
       (io_catch
          (io_bind (call (query_reply E) (Query p selector)) (\<lambda>field.
           case field of
             Some f \<Rightarrow> io_bind (call (unit_reply E) (Fill f v)) (\<lambda>_. io_return True)
           | None \<Rightarrow> io_return False))
          (\<lambda>e. io_return False))
       (\<lambda>filled. if filled then io_return True else fill_first E p selectors v)"

text \<open>\<^verbatim>\<open>for (const selector of selectors) { try { const button = await page.$(selector);
  if (button) { await button.click(); break; } } catch { continue; } }\<close>\<close>

fun click_first :: "env \<Rightarrow> page \<Rightarrow> ustring list \<Rightarrow> unit io" where
  "click_first E p [] = io_return ()"
| "click_first E p (selector # selectors) =
     io_bind
       (io_catch
          (io_bind (call (query_reply E) (Query p selector)) (\<lambda>button.
           case button of
             Some b \<Rightarrow> io_bind (call (unit_reply E) (Click b)) (\<lambda>_. io_return True)
           | None \<Rightarrow> io_return False))
          (\<lambda>e. io_return False))
       (\<lambda>clicked. if clicked then io_return () else click_first E p selectors)"

subsection \<open>Login\<close>

definition emailSelectors :: "ustring list" where
  \<open>emailSelectors = map u
     [''input[type="email"]'', ''input[name="email"]'', ''input[id*="email"]'',
      ''input[placeholder*="email" i]'', ''input[name="username"]'', ''#username'', ''#email'']\<close>

definition passwordSelectors :: "ustring list" where
  \<open>passwordSelectors = map u
     [''input[type="password"]'', ''input[name="password"]'', ''#password'']\<close>

definition loginButtonSelectors :: "ustring list" where
  \<open>loginButtonSelectors = map u
     [''button[type="submit"]'', ''input[type="submit"]'', ''button:has-text("Log in")'',
      ''button:has-text("Sign in")'', ''button:has-text("Login")'',
      ''button:has-text("Continue")'', ''[data-testid="login-button"]'']\<close>

definition on_login_page :: "ustring \<Rightarrow> bool" where
  "on_login_page address = (str_includes address (u ''login'') \<or> str_includes address (u ''signin''))"

definition login :: "env \<Rightarrow> bool io" where
  "login E =
     io_bind (ensureBrowser E) (\<lambda>p.
     io_bind readSession (\<lambda>file.
     io_bind
       (case file of
          Some session \<Rightarrow>
            if loggedIn session then
              io_catch
                (io_bind (call (unit_reply E) (Goto p ROYALMAIL_CREATE_ORDER_URL)) (\<lambda>_.
                 io_bind (url E p) (\<lambda>address.
                 io_return (\<not> on_login_page address))))
                (\<lambda>e. io_return False)
            else io_return False
        | None \<Rightarrow> io_return False) (\<lambda>still_logged_in.
     if still_logged_in then io_return True
     else
       io_bind (call (unit_reply E) (Goto p ROYALMAIL_LOGIN_URL)) (\<lambda>_.
       io_bind (call (unit_reply E) (WaitForTimeout p 2000)) (\<lambda>_.
       io_bind (capture E p ''login'') (\<lambda>loginScreenshot.
       io_bind (fill_first E p emailSelectors (username (config E))) (\<lambda>emailFilled.
       io_bind (fill_first E p passwordSelectors (password (config E))) (\<lambda>passwordFilled.
       io_bind
         (if \<not> emailFilled \<or> \<not> passwordFilled then
            io_bind (capture E p ''login-error'') (\<lambda>errorScreenshot.
            io_throw (u ''Could not find login fields. See screenshot: '' @ errorScreenshot))
          else io_return ()) (\<lambda>_.
       io_bind (click_first E p loginButtonSelectors) (\<lambda>_.
       io_bind
         (io_catch (call (unit_reply E) (WaitForLoginNavigation p))
            (\<lambda>e. io_bind (url E p) (\<lambda>address.
                 if on_login_page address then
                   io_bind (capture E p ''login-failed'') (\<lambda>errorScreenshot.
                   io_throw (u ''Login failed. Check credentials. See screenshot: ''
                             @ errorScreenshot))
                 else io_return ()))) (\<lambda>_.
       io_bind (call (unit_reply E) (WaitForTimeout p 2000)) (\<lambda>_.
       io_bind (updateSession E (no_update\<lparr>set_loggedIn := Some True\<rparr>)) (\<lambda>_.
       io_return True)))))))))))))"

subsection \<open>The element resolver\<close>

text \<open>\<^verbatim>\<open>`input[${attr}*="${text}" i], textarea[${attr}*="${text}" i]`\<close>\<close>

definition attribute_selector :: "string \<Rightarrow> ustring \<Rightarrow> ustring" where
  \<open>attribute_selector attr text =
     u ''input['' @ u attr @ u ''*="'' @ text @ u ''" i], textarea['' @ u attr @ u ''*="''
       @ text @ u ''" i]''\<close>

definition label_selector :: "ustring \<Rightarrow> ustring" where
  \<open>label_selector label = u ''label:has-text("'' @ label @ u ''")''\<close>

definition input_near_label :: ustring where
  "input_near_label = u (''xpath=following-sibling::input | following-sibling::textarea''
       @ '' | ../input | ../textarea | .//input | .//textarea'')"

text \<open>\<^verbatim>\<open>label.toLowerCase().replace(/\s+/g, "")\<close>\<close>

definition nameVariantOf :: "env \<Rightarrow> ustring \<Rightarrow> ustring" where
  "nameVariantOf E label = filter (\<lambda>c. \<not> is_space c) (toLowerCase E label)"

text \<open>\<^verbatim>\<open>field = await page.$(selector); if (field) { await field.fill(value); return; }\<close>:
  \<open>True\<close> when the return is taken.\<close>

definition fill_if_found :: "env \<Rightarrow> element option io \<Rightarrow> ustring \<Rightarrow> bool io" where
  "fill_if_found E q v =
     io_bind q (\<lambda>field.
     case field of
       Some f \<Rightarrow> io_bind (call (unit_reply E) (Fill f v)) (\<lambda>_. io_return True)
     | None \<Rightarrow> io_return False)"

text \<open>The body of the \<^verbatim>\<open>try\<close> block of \<^verbatim>\<open>fillField\<close> for one label variant:
  \<open>True\<close> when the field was filled and the function returned.\<close>

definition fillField_variant :: "env \<Rightarrow> page \<Rightarrow> ustring \<Rightarrow> ustring \<Rightarrow> bool io" where
  "fillField_variant E p label v =
     io_bind (fill_if_found E
                (call (query_reply E) (Query p (attribute_selector ''aria-label'' label))) v)
       (\<lambda>done. if done then io_return True else
     io_bind (fill_if_found E
                (call (query_reply E) (Query p (attribute_selector ''placeholder'' label))) v)
       (\<lambda>done. if done then io_return True else
     io_bind (call (query_reply E) (Query p (label_selector label))) (\<lambda>labelEl.
     io_bind
       (case labelEl of
          Some l \<Rightarrow>
            io_bind (call (attribute_reply E) (GetAttribute l (u ''for''))) (\<lambda>forAttr.
            io_bind
              (case forAttr of
                 Some target \<Rightarrow>
                   if target \<noteq> [] then
                     fill_if_found E (call (query_reply E) (Query p (u ''#'' @ target))) v
                   else io_return False
               | None \<Rightarrow> io_return False)
              (\<lambda>done. if done then io_return True else
            fill_if_found E (call (query_reply E) (ElementQuery l input_near_label)) v))
        | None \<Rightarrow> io_return False)
       (\<lambda>done. if done then io_return True else
     io_bind (fill_if_found E
                (call (query_reply E) (Query p (attribute_selector ''name'' (nameVariantOf E label)))) v)
       (\<lambda>done. if done then io_return True else
     io_bind (fill_if_found E
                (call (query_reply E) (Query p (attribute_selector ''id'' (nameVariantOf E label)))) v)
       (\<lambda>done. if done then io_return True else
     fill_if_found E
       (call (query_reply E) (Query p (attribute_selector ''data-testid'' (nameVariantOf E label))))
       v))))))"

fun fillField :: "env \<Rightarrow> page \<Rightarrow> ustring list \<Rightarrow> ustring \<Rightarrow> unit io" where
  "fillField E p [] v = io_return ()"
| "fillField E p (label # labelVariants) v =
     io_bind (io_catch (fillField_variant E p label v) (\<lambda>e. io_return False))
       (\<lambda>done. if done then io_return () else fillField E p labelVariants v)"

subsection \<open>The service resolver\<close>

definition selectSelectors :: "ustring list" where
  \<open>selectSelectors = map u
     [''select[name*="service" i]'', ''select[id*="service" i]'',
      ''select[aria-label*="service" i]'', ''#serviceType'', ''#service'']\<close>

text \<open>Method 1, the loop over the drop-down selectors: \<open>True\<close> when an option was
  selected and the function returned.\<close>

fun select_dropdown :: "env \<Rightarrow> page \<Rightarrow> ustring list \<Rightarrow> ustring \<Rightarrow> ustring \<Rightarrow> bool io" where
  "select_dropdown E p [] serviceCode serviceName = io_return False"
| "select_dropdown E p (selector # selectors) serviceCode serviceName =
     io_bind
       (io_catch
          (io_bind (call (query_reply E) (Query p selector)) (\<lambda>select.
           case select of
             Some sel \<Rightarrow>
               io_catch
                 (io_bind (call (unit_reply E) (SelectOptionValue sel serviceCode))
                    (\<lambda>_. io_return True))
                 (\<lambda>e. io_bind (call (unit_reply E) (SelectOptionLabel sel serviceName))
                    (\<lambda>_. io_return True))
           | None \<Rightarrow> io_return False))
          (\<lambda>e. io_return False))
       (\<lambda>done. if done then io_return True
               else select_dropdown E p selectors serviceCode serviceName)"

text \<open>Methods 2 to 4: \<^verbatim>\<open>try { const el = await page.$(selector); if (el) { await
  el.click(); return; } } catch { }\<close>.\<close>

definition click_if_found :: "env \<Rightarrow> page \<Rightarrow> ustring \<Rightarrow> bool io" where
  "click_if_found E p selector =
     io_catch
       (io_bind (call (query_reply E) (Query p selector)) (\<lambda>found.
        case found of
          Some el \<Rightarrow> io_bind (call (unit_reply E) (Click el)) (\<lambda>_. io_return True)
        | None \<Rightarrow> io_return False))
       (\<lambda>e. io_return False)"

definition radio_selector :: "ustring \<Rightarrow> ustring \<Rightarrow> ustring" where
  \<open>radio_selector serviceCode serviceName =
     u ''input[type="radio"][value*="'' @ serviceCode
       @ u ''" i], input[type="radio"][value*="'' @ serviceName @ u ''" i]''\<close>

definition tile_selector :: "ustring \<Rightarrow> ustring \<Rightarrow> ustring" where
  \<open>tile_selector serviceCode serviceName =
     u ''[data-service="'' @ serviceCode @ u ''"], [data-value="'' @ serviceCode
       @ u ''"], .service-tile:has-text("'' @ serviceName @ u ''")''\<close>

definition service_label_selector :: "ustring \<Rightarrow> ustring" where
  \<open>service_label_selector serviceName =
     u ''label:has-text("'' @ serviceName @ u ''"), div:has-text("'' @ serviceName
       @ u ''"):not(:has(div))''\<close>

definition selectService :: "env \<Rightarrow> page \<Rightarrow> ustring \<Rightarrow> unit io" where
  "selectService E p serviceCode =
     io_bind (select_dropdown E p selectSelectors serviceCode (serviceNameOf E serviceCode))
       (\<lambda>done. if done then io_return () else
     io_bind (click_if_found E p (radio_selector serviceCode (serviceNameOf E serviceCode)))
       (\<lambda>done. if done then io_return () else
     io_bind (click_if_found E p (tile_selector serviceCode (serviceNameOf E serviceCode)))
       (\<lambda>done. if done then io_return () else
     io_bind (click_if_found E p (service_label_selector (serviceNameOf E serviceCode)))
       (\<lambda>done. io_return ()))))"

subsection \<open>Filling the form\<close>

text \<open>\<^verbatim>\<open>if (options.x) { await this.fillField(page, labels, options.x); }\<close> for an
  optional string, and the same with \<^verbatim>\<open>String(options.x)\<close> for an optional number.\<close>

definition fill_optional :: "env \<Rightarrow> page \<Rightarrow> ustring list \<Rightarrow> ustring option \<Rightarrow> unit io" where
  "fill_optional E p labels v =
     (case v of
        Some text \<Rightarrow> if text \<noteq> [] then fillField E p labels text else io_return ()
      | None \<Rightarrow> io_return ())"

definition fill_dimension :: "env \<Rightarrow> page \<Rightarrow> ustring list \<Rightarrow> jsnumber option \<Rightarrow> unit io" where
  "fill_dimension E p labels v =
     (case v of
        Some n \<Rightarrow> if number_truthy n then fillField E p labels (number_String n)
                  else io_return ()
      | None \<Rightarrow> io_return ())"



subsection \<open>Submitting\<close>

definition submitButtonSelectors :: "ustring list" where
  \<open>submitButtonSelectors = map u
     [''button:has-text("Buy postage")'', ''button:has-text("Apply postage")'',
      ''button:has-text("Create label")'', ''button:has-text("Continue")'',
      ''button:has-text("Next")'', ''button:has-text("Submit")'', ''button[type="submit"]'',
      ''[data-testid="submit-button"]'', ''[data-testid="create-label-button"]'']\<close>

definition confirmButtons :: "ustring list" where
  \<open>confirmButtons = map u
     [''button:has-text("Confirm")'', ''button:has-text("Pay")'',
      ''button:has-text("Complete")'', ''button:has-text("Finish")'']\<close>

text \<open>The second loop of \<^verbatim>\<open>submit\<close>: after the click, still inside the
  \<^verbatim>\<open>try\<close>, it waits for the network and for three seconds before it breaks.\<close>

fun click_confirm :: "env \<Rightarrow> page \<Rightarrow> ustring list \<Rightarrow> unit io" where
  "click_confirm E p [] = io_return ()"
| "click_confirm E p (selector # selectors) =
     io_bind
       (io_catch
          (io_bind (call (query_reply E) (Query p selector)) (\<lambda>button.
           case button of
             Some b \<Rightarrow>
               io_bind (call (unit_reply E) (Click b)) (\<lambda>_.
               io_bind (call (unit_reply E) (WaitForLoadState p)) (\<lambda>_.
               io_bind (call (unit_reply E) (WaitForTimeout p 3000)) (\<lambda>_.
               io_return True)))
           | None \<Rightarrow> io_return False))
          (\<lambda>e. io_return False))
       (\<lambda>clicked. if clicked then io_return () else click_confirm E p selectors)"

definition extractConfirmation :: "env \<Rightarrow> page \<Rightarrow> (ustring option \<times> ustring option) io" where
  "extractConfirmation E p =
     io_catch
       (io_bind (call (text_reply E) (EvaluateInnerText p)) (\<lambda>text.
        io_return (extractFromText text)))
       (\<lambda>e. io_return (None, None))"

definition form_not_filled :: Result where
  "form_not_filled =
     empty_result\<lparr>error := Some True,
       message := Some (u ''Form has not been filled yet. Call create-label first.'')\<rparr>"

text \<open>The \<^verbatim>\<open>try\<close> block of \<^verbatim>\<open>submit\<close> with its \<^verbatim>\<open>catch\<close>.\<close>

definition submit_attempt :: "env \<Rightarrow> page \<Rightarrow> Result io" where
  "submit_attempt E p =
     io_catch
       (io_bind (click_first E p submitButtonSelectors) (\<lambda>_.
        io_bind (call (unit_reply E) (WaitForLoadState p)) (\<lambda>_.
        io_bind (call (unit_reply E) (WaitForTimeout p 3000)) (\<lambda>_.
        io_bind (capture E p ''review'') (\<lambda>reviewScreenshot.
        io_bind (click_confirm E p confirmButtons) (\<lambda>_.
        io_bind (capture E p ''confirmation'') (\<lambda>confirmationScreenshot.
        io_bind (extractConfirmation E p) (\<lambda>extractedData.
        io_bind (updateSession E (no_update\<lparr>set_labelGenerated := Some True\<rparr>)) (\<lambda>_.
        io_return
          (empty_result
             \<lparr>success := Some True, screenshot := Some confirmationScreenshot,
              trackingNumber := fst extractedData, cost := snd extractedData,
              message := Some (u (''Label created successfully. ''
                  @ ''Call download-label to save the PDF.''))\<rparr>))))))))))
       (\<lambda>error_message.
        io_bind (capture E p ''submit-error'') (\<lambda>errorScreenshot.
        io_return
          (empty_result
             \<lparr>error := Some True,
              message := Some (u ''Submit failed: '' @ error_message),
              screenshot := Some errorScreenshot\<rparr>)))"

definition submit :: "env \<Rightarrow> Result io" where
  "submit E =
     io_bind (ensureBrowser E) (\<lambda>p.
     io_bind readSession (\<lambda>file.
     if (case file of Some session \<Rightarrow> \<not> formFilled session | None \<Rightarrow> False)
     then io_return form_not_filled
     else submit_attempt E p))"

subsection \<open>Downloading\<close>

definition downloadSelectors :: "ustring list" where
  \<open>downloadSelectors = map u
     [''button:has-text("Download")'', ''button:has-text("Print")'',
      ''button:has-text("Get label")'', ''a:has-text("Download")'',
      ''a:has-text("Print label")'', ''[data-testid="download-label"]'', ''.download-label'']\<close>

definition label_not_generated :: Result where
  "label_not_generated =
     empty_result\<lparr>error := Some True,
       message := Some (u ''Label has not been generated yet. Call submit first.'')\<rparr>"

text \<open>\<^verbatim>\<open>page.waitForEvent("download")\<close> only arms the listener and returns a promise:
  the event is recorded and nothing is awaited.\<close>

definition arm :: "event \<Rightarrow> unit io" where
  "arm ev = modify (\<lambda>s. s\<lparr>trace := trace s @ [ev]\<rparr>)"

text \<open>\<^verbatim>\<open>suggestedFilename.match(/([A-Z]{2}\d{9}GB)/)?.[1]\<close>, with the time-stamped name
  when there is no tracking number in the file name.\<close>

definition labelNameOf :: "env \<Rightarrow> ustring \<Rightarrow> ustring io" where
  "labelNameOf E suggestedFilename =
     (case regexp_exec bare_tracking suggestedFilename of
        Some tracking \<Rightarrow>
          if tracking \<noteq> [] then io_return tracking
          else io_bind (now E) (\<lambda>t. io_return (u ''label-'' @ decimal t))
      | None \<Rightarrow> io_bind (now E) (\<lambda>t. io_return (u ''label-'' @ decimal t)))"

text \<open>The \<^verbatim>\<open>try\<close> block of \<^verbatim>\<open>downloadLabel\<close> with its \<^verbatim>\<open>catch\<close>.\<close>

definition download_attempt :: "env \<Rightarrow> page \<Rightarrow> Result io" where
  "download_attempt E p =
     io_catch
       (io_bind (arm (WaitForDownloadEvent p)) (\<lambda>_.
        io_bind (click_first E p downloadSelectors) (\<lambda>_.
        io_bind (call (download_reply E) (AwaitDownload p)) (\<lambda>(dl, suggestedFilename).
        io_bind (labelNameOf E suggestedFilename) (\<lambda>tracking.
        io_bind (call (unit_reply E)
                   (SaveAs dl (LABEL_DIR @ u ''/'' @ tracking @ u ''.pdf''))) (\<lambda>_.
        io_return
          (empty_result
             \<lparr>success := Some True,
              labelPath := Some (LABEL_DIR @ u ''/'' @ tracking @ u ''.pdf''),
              trackingNumber := Some tracking,
              message := Some (u ''Label downloaded successfully to '' @ LABEL_DIR @ u ''/''
                               @ tracking @ u ''.pdf'')\<rparr>)))))))
       (\<lambda>error_message.
        io_bind (capture E p ''download-error'') (\<lambda>errorScreenshot.
        io_return
          (empty_result
             \<lparr>error := Some True,
              message := Some (u ''Download failed: '' @ error_message),
              screenshot := Some errorScreenshot\<rparr>)))"

definition downloadLabel :: "env \<Rightarrow> Result io" where
  "downloadLabel E =
     io_bind (ensureBrowser E) (\<lambda>p.
     io_bind readSession (\<lambda>file.
     if (case file of Some session \<Rightarrow> \<not> labelGenerated session | None \<Rightarrow> False)
     then io_return label_not_generated
     else download_attempt E p))"

subsection \<open>Services, screenshots and reset\<close>

text \<open>The entries of \<^verbatim>\<open>listServices\<close>: code, name and description.\<close>

definition listServices :: "(ustring \<times> ustring \<times> ustring) list" where
  "listServices =
    [(u ''TRACKED24'', u ''Royal Mail Tracked 24'', u ''Next working day delivery with tracking''),
     (u ''TRACKED48'', u ''Royal Mail Tracked 48'', u ''2-3 working day delivery with tracking''),
     (u ''SPECIALDELIVERY9'', u ''Special Delivery Guaranteed by 9am'',
        u ''Next day by 9am, compensation up to '' @ [163] @ u ''2,500''),
     (u ''SPECIALDELIVERY1'', u ''Special Delivery Guaranteed by 1pm'',
        u ''Next day by 1pm, compensation up to '' @ [163] @ u ''500''),
     (u ''SIGNED'', u ''Royal Mail Signed For 1st Class'', u ''1st class with signature on delivery''),
     (u ''SIGNED2'', u ''Royal Mail Signed For 2nd Class'', u ''2nd class with signature on delivery'')]"


definition reset_succeeded :: Result where
  "reset_succeeded =
     empty_result\<lparr>success := Some True,
       message := Some (u ''Browser session closed and cleared.'')\<rparr>"

definition reset :: "env \<Rightarrow> Result io" where
  "reset E =
     io_catch
       (io_bind (\<lambda>s. (Inr (this_browser s), s)) (\<lambda>held.
        io_bind
          (case held of
             Some b \<Rightarrow>
               io_bind (call (unit_reply E) (BrowserClose b)) (\<lambda>_.
               modify (\<lambda>s. s\<lparr>this_browser := None, this_context := None, this_page := None\<rparr>))
           | None \<Rightarrow> io_return ()) (\<lambda>_.
        io_bind existsSession (\<lambda>found.
        io_bind (if found then unlinkSession E else io_return ()) (\<lambda>_.
        io_return reset_succeeded)))))
       (\<lambda>error_message.
        io_return
          (empty_result\<lparr>error := Some True,
             message := Some (u ''Reset failed: '' @ error_message)\<rparr>))"

subsection \<open>The operations of the client\<close>

datatype operation =
    CreateLabel CreateLabelOptions
  | Submit
  | DownloadLabel
  | ListServices
  | TakeScreenshot "ScreenshotOptions option"
  | Reset


section \<open>Properties and sample environments\<close>

subsection \<open>Properties of the session file and of the history\<close>

text \<open>The session file before and after a step: where there was none there is none; an
  unreadable content is as it was; where there was a descriptor there still is one, with
  its endpoint and creation time, and no flag has gone from true to false.\<close>

definition flags_kept :: "session_content option \<Rightarrow> session_content option \<Rightarrow> bool" where
  "flags_kept before after =
     (case before of
        None \<Rightarrow> after = None
      | Some (Unreadable e) \<Rightarrow> after = Some (Unreadable e)
      | Some (Descriptor d) \<Rightarrow>
          (case after of
             Some (Descriptor d') \<Rightarrow>
               wsEndpoint d' = wsEndpoint d \<and> createdAt d' = createdAt d
               \<and> (loggedIn d \<longrightarrow> loggedIn d')
               \<and> (formFilled d \<longrightarrow> formFilled d')
               \<and> (labelGenerated d \<longrightarrow> labelGenerated d')
           | _ \<Rightarrow> False))"


text \<open>The step relation behind claim C4: the history only grows, and unless a browser was
  launched on the way the descriptor is kept.  A computation is \<open>orderly\<close> when every run
  of it is such a step.\<close>

definition advances :: "state \<Rightarrow> state \<Rightarrow> bool" where
  "advances s s' =
     (\<exists>t. trace s' = trace s @ t
          \<and> (Launch \<notin> set t \<longrightarrow> flags_kept (session_file s) (session_file s')))"

definition orderly :: "'a io \<Rightarrow> bool" where
  "orderly m = (\<forall>s. advances s (snd (m s)))"




text \<open>The calls by which \<^verbatim>\<open>fillField\<close> looks for an element: they change nothing on
  the page.\<close>

definition lookup_event :: "event \<Rightarrow> bool" where
  "lookup_event ev =
     (case ev of
        Query p selector \<Rightarrow> True
      | ElementQuery el selector \<Rightarrow> True
      | GetAttribute el attr \<Rightarrow> True
      | _ \<Rightarrow> False)"

text \<open>A computation that only looks: it leaves the state as it was but for lookups added
  to the history.\<close>

definition looks_only :: "'a io \<Rightarrow> bool" where
  "looks_only m =
     (\<forall>s. \<exists>t. snd (m s) = s\<lparr>trace := trace s @ t\<rparr> \<and> (\<forall>ev \<in> set t. lookup_event ev))"

text \<open>A computation whose first Playwright call is the given one, and a computation that
  never returns the given value.\<close>

definition emits :: "event \<Rightarrow> 'a io \<Rightarrow> bool" where
  "emits ev m = (\<forall>s. \<exists>t. trace (snd (m s)) = trace s @ ev # t)"

definition never_returns :: "'a \<Rightarrow> 'a io \<Rightarrow> bool" where
  "never_returns r m = (\<forall>s. fst (m s) \<noteq> Inr r)"

subsection \<open>Sample environments\<close>

text \<open>An environment in which the browser of the session is alive with one page, every
  action succeeds, no selector finds an element, no download arrives, a launched browser
  reports no endpoint, the file can be written and deleted, only the ASCII letters have a
  lower case, and no property is inherited.\<close>

definition calm_env :: env where
  "calm_env =
     \<lparr>connect_reply = (\<lambda>h. Inr (1, [(1, [1])])),
      launch_reply = (\<lambda>h. Inr (2, None)),
      handle_reply = (\<lambda>h. Inr 7),
      unit_reply = (\<lambda>h. Inr ()),
      query_reply = (\<lambda>h. Inr None),
      attribute_reply = (\<lambda>h. Inr None),
      text_reply = (\<lambda>h. Inr (u ''Tracking: AB123456789GB'')),
      download_reply = (\<lambda>h. Inl (u ''Timeout 30000ms exceeded'')),
      page_url = (\<lambda>h p. u ''https://business.parcel.royalmail.com/orders''),
      date_now = (\<lambda>h. 1700000000000),
      toISOString = (\<lambda>t. u ''2023-11-14T22:13:20.000Z''),
      config = \<lparr>username = u ''user'', password = u ''secret''\<rparr>,
      write_reply = (\<lambda>h. Inr ()),
      unlink_reply = (\<lambda>h. Inr ()),
      toLowerCase = map (\<lambda>c. if 65 \<le> c \<and> c \<le> 90 then c + 32 else c),
      inherited_property = (\<lambda>name. None)\<rparr>"

text \<open>A descriptor left by an earlier process, with the given flags.\<close>

definition old_session :: "bool \<Rightarrow> bool \<Rightarrow> bool \<Rightarrow> SessionInfo" where
  "old_session a b c =
     \<lparr>wsEndpoint = u ''ws://127.0.0.1:9222/old'', createdAt = u ''2023-11-14T20:00:00.000Z'',
      loggedIn = a, formFilled = b, labelGenerated = c\<rparr>"

text \<open>An environment in which the old browser is gone and the launched one reports an
  endpoint, and the descriptor which a cold start then writes.\<close>

definition relaunch_env :: env where
  "relaunch_env =
     calm_env\<lparr>connect_reply := \<lambda>h. Inl (u ''connect ECONNREFUSED''),
              launch_reply := \<lambda>h. Inr (2, Some (u ''ws://127.0.0.1:9333/new''))\<rparr>"

definition fresh_session :: SessionInfo where
  "fresh_session =
     \<lparr>wsEndpoint = u ''ws://127.0.0.1:9333/new'', createdAt = u ''2023-11-14T22:13:20.000Z'',
      loggedIn = False, formFilled = False, labelGenerated = False\<rparr>"

text \<open>A page on which the label \<open>Town\<close> is found, with a \<^verbatim>\<open>for\<close> attribute, but no
  control: every other query finds nothing.\<close>

definition label_only_env :: env where
  "label_only_env =
     calm_env
       \<lparr>query_reply :=
          (\<lambda>h. if last h = Query 7 (label_selector (u ''Town''))
                then Inr (Some 5) else Inr None),
        attribute_reply := (\<lambda>h. Inr (Some (u ''town-input'')))\<rparr>"

named_theorems orderly_intros

section \<open>The confirmation extractor\<close>

lemma exactly_2: "exactly 2 c = [Atom c, Atom c]"
  by (simp add: exactly_def numeral_2_eq_2)

lemma exactly_9:
  "exactly 9 c = [Atom c, Atom c, Atom c, Atom c, Atom c, Atom c, Atom c, Atom c, Atom c]"
  by (simp add: exactly_def eval_nat_numeral)

lemmas class_defs =
  lit_ci_def lit_def upcase_def is_digit_def is_upper_def is_upper_ci_def is_space_def
  sep_colon_def sep_hash_def pound_or_dollar_def pound_sign_def amount_char_def

lemmas pattern_defs =
  tracking_labelled_def reference_labelled_def bare_tracking_def barcode_labelled_def
  total_labelled_def cost_labelled_def price_labelled_def bare_pounds_def
  word_ci_def word_cs_def exactly_2 exactly_9 one_or_more_def

text \<open>Start positions at which the pattern fails are skipped by the search.\<close>

lemma regexp_exec_skip:
  "(\<forall>i<length pre. rmatch p (drop i (pre @ rest)) [] [] = None) \<Longrightarrow>
     regexp_exec p (pre @ rest) = regexp_exec p rest"
proof (induction pre)
  case Nil
  then show ?case by simp
next
  case (Cons x xs)
  from Cons.prems have here: "rmatch p (x # xs @ rest) [] [] = None"
    by (metis append_Cons drop0 length_greater_0_conv list.distinct(1))
  have "\<forall>i<length xs. rmatch p (drop i (xs @ rest)) [] [] = None"
  proof (intro allI impI)
    fix i assume "i < length xs"
    then have "Suc i < length (x # xs)" by simp
    with Cons.prems have "rmatch p (drop (Suc i) ((x # xs) @ rest)) [] [] = None" by blast
    then show "rmatch p (drop i (xs @ rest)) [] [] = None" by simp
  qed
  with Cons.IH have "regexp_exec p (xs @ rest) = regexp_exec p rest" by simp
  with here show ?case by simp
qed

lemma tracking_at:
  "rmatch tracking_labelled (u ''Tracking: AB123456789GB'' @ post) [] []
     = Some (u ''AB123456789GB'')"
  by (simp add: pattern_defs u_def class_defs)

lemma amount_stops:
  "\<not> (\<exists>c cs. post = c # cs \<and> amount_char c) \<Longrightarrow>
   rmatch [Star amount_char, GroupClose] post g cap = Some (take (length g - length post) g)"
  by (cases post) simp_all

lemma total_at:
  assumes "\<not> (\<exists>c cs. post = c # cs \<and> amount_char c)"
  shows "rmatch total_labelled (u ''Total: '' @ [163] @ u ''12.34'' @ post) [] []
           = Some (u ''12.34'')"
proof -
  have stop: "rmatch [Star amount_char, GroupClose] post g cap
                = Some (take (length g - length post) g)" for g cap
    using assms by (rule amount_stops)
  show ?thesis
    by (simp add: pattern_defs u_def class_defs stop)
qed

lemma first_match_none:
  "\<forall>p \<in> set ps. regexp_exec p text = None \<Longrightarrow> first_match ps text = None"
  by (induction ps) simp_all

text \<open>
  Claim C5, as the code has it.  The extractor is the function \<open>extractFromText\<close> of the
  page text alone.  (1) In a text that holds \<open>Tracking: AB123456789GB\<close>, with no match of
  the Tracking-labelled pattern starting before that substring, the tracking number is
  \<open>AB123456789GB\<close>.  (2) When none of the four patterns matches, the tracking number is
  absent.  (3) The patterns are tried in the order Tracking-labelled, Reference-labelled,
  bare, Barcode-labelled, and the first one that matches gives the result.
\<close>

theorem C5_tracking_number:
  "(\<forall>pre post.
      (\<forall>i<length pre.
          rmatch tracking_labelled (drop i (pre @ u ''Tracking: AB123456789GB'' @ post)) [] []
            = None)
      \<longrightarrow> fst (extractFromText (pre @ u ''Tracking: AB123456789GB'' @ post))
            = Some (u ''AB123456789GB''))
   \<and> (\<forall>text. (\<forall>p \<in> set trackingPatterns. regexp_exec p text = None)
          \<longrightarrow> fst (extractFromText text) = None)
   \<and> (\<forall>text. fst (extractFromText text) =
         (case regexp_exec tracking_labelled text of Some m \<Rightarrow> Some m | None \<Rightarrow>
          (case regexp_exec reference_labelled text of Some m \<Rightarrow> Some m | None \<Rightarrow>
           (case regexp_exec bare_tracking text of Some m \<Rightarrow> Some m | None \<Rightarrow>
             regexp_exec barcode_labelled text))))"
proof (intro conjI allI impI)
  fix pre post
  assume h: "\<forall>i<length pre.
      rmatch tracking_labelled (drop i (pre @ u ''Tracking: AB123456789GB'' @ post)) [] [] = None"
  have "regexp_exec tracking_labelled (pre @ u ''Tracking: AB123456789GB'' @ post)
        = regexp_exec tracking_labelled (u ''Tracking: AB123456789GB'' @ post)"
    using h by (rule regexp_exec_skip)
  also have "\<dots> = Some (u ''AB123456789GB'')"
    using tracking_at [of post] by (simp add: u_def)
  finally show "fst (extractFromText (pre @ u ''Tracking: AB123456789GB'' @ post))
                  = Some (u ''AB123456789GB'')"
    by (simp add: extractFromText_def trackingPatterns_def)
next
  fix t
  assume "\<forall>p \<in> set trackingPatterns. regexp_exec p t = None"
  then show "fst (extractFromText t) = None"
    by (simp add: extractFromText_def first_match_none)
next
  fix t
  show "fst (extractFromText t) =
         (case regexp_exec tracking_labelled t of Some m \<Rightarrow> Some m | None \<Rightarrow>
          (case regexp_exec reference_labelled t of Some m \<Rightarrow> Some m | None \<Rightarrow>
           (case regexp_exec bare_tracking t of Some m \<Rightarrow> Some m | None \<Rightarrow>
             regexp_exec barcode_labelled t)))"
    by (simp add: extractFromText_def trackingPatterns_def split: option.splits)
qed

theorem C5_tracking_number_witness:
  "fst (extractFromText (u ''Ref '' @ u ''Tracking: AB123456789GB'' @ u '' sent''))
     = Some (u ''AB123456789GB'')
   \<and> fst (extractFromText (u ''no label here'')) = None"
proof -
  have a: "\<forall>i<length (u ''Ref '').
      rmatch tracking_labelled
        (drop i (u ''Ref '' @ u ''Tracking: AB123456789GB'' @ u '' sent'')) [] [] = None"
    by (simp add: u_def All_less_Suc pattern_defs class_defs)
  have b: "\<forall>p \<in> set trackingPatterns. regexp_exec p (u ''no label here'') = None"
    by (simp add: trackingPatterns_def u_def pattern_defs class_defs)
  from C5_tracking_number a b show ?thesis by blast
qed

text \<open>The claim as stated fails: this text holds \<open>Tracking: AB123456789GB\<close>, and the
  tracking number returned is the one of the earlier match.\<close>

theorem C5_earlier_match_counterexample:
  "fst (extractFromText (u ''Tracking: XY987654321GB Tracking: AB123456789GB''))
     = Some (u ''XY987654321GB'')
   \<and> u ''XY987654321GB'' \<noteq> u ''AB123456789GB''"
  by (simp add: extractFromText_def trackingPatterns_def u_def pattern_defs class_defs)

text \<open>
  Claim C6, as the code has it.  (1) In a text that holds \<open>Total: \<pounds>12.34\<close>, with no
  match of the Total-labelled pattern starting before that substring and with no digit,
  full stop or comma right behind it, the cost is \<open>\<pounds>12.34\<close>.  (2) When none of the four
  patterns matches, the cost is absent.  (3) The patterns are tried in the order
  Total-labelled, Cost-labelled, Price-labelled, bare pound amount, and the first one that
  matches gives the result.
\<close>

theorem C6_cost:
  "(\<forall>pre post.
      (\<forall>i<length pre.
          rmatch total_labelled (drop i (pre @ u ''Total: '' @ [163] @ u ''12.34'' @ post)) [] []
            = None)
      \<and> \<not> (\<exists>c cs. post = c # cs \<and> amount_char c)
      \<longrightarrow> snd (extractFromText (pre @ u ''Total: '' @ [163] @ u ''12.34'' @ post))
            = Some ([163] @ u ''12.34''))
   \<and> (\<forall>text. (\<forall>p \<in> set costPatterns. regexp_exec p text = None)
          \<longrightarrow> snd (extractFromText text) = None)
   \<and> (\<forall>text. snd (extractFromText text) =
         map_option (\<lambda>m. 163 # m)
         (case regexp_exec total_labelled text of Some m \<Rightarrow> Some m | None \<Rightarrow>
          (case regexp_exec cost_labelled text of Some m \<Rightarrow> Some m | None \<Rightarrow>
           (case regexp_exec price_labelled text of Some m \<Rightarrow> Some m | None \<Rightarrow>
             regexp_exec bare_pounds text))))"
proof (intro conjI allI impI)
  fix pre post
  let ?S = "u ''Total: '' @ [163] @ u ''12.34'' @ post"
  assume h: "(\<forall>i<length pre. rmatch total_labelled (drop i (pre @ ?S)) [] [] = None)
      \<and> \<not> (\<exists>c cs. post = c # cs \<and> amount_char c)"
  then have "regexp_exec total_labelled (pre @ ?S) = regexp_exec total_labelled ?S"
    by (intro regexp_exec_skip) simp
  also have "\<dots> = Some (u ''12.34'')"
    using total_at [of post] h by (simp add: u_def)
  finally show "snd (extractFromText (pre @ ?S)) = Some ([163] @ u ''12.34'')"
    by (simp add: extractFromText_def costPatterns_def)
next
  fix t
  assume "\<forall>p \<in> set costPatterns. regexp_exec p t = None"
  then show "snd (extractFromText t) = None"
    by (simp add: extractFromText_def first_match_none)
next
  fix t
  show "snd (extractFromText t) =
         map_option (\<lambda>m. 163 # m)
         (case regexp_exec total_labelled t of Some m \<Rightarrow> Some m | None \<Rightarrow>
          (case regexp_exec cost_labelled t of Some m \<Rightarrow> Some m | None \<Rightarrow>
           (case regexp_exec price_labelled t of Some m \<Rightarrow> Some m | None \<Rightarrow>
             regexp_exec bare_pounds t)))"
    by (simp add: extractFromText_def costPatterns_def split: option.splits)
qed

theorem C6_cost_witness:
  "snd (extractFromText (u ''Paid. '' @ u ''Total: '' @ [163] @ u ''12.34'' @ u '' today''))
     = Some ([163] @ u ''12.34'')
   \<and> snd (extractFromText (u ''nothing to pay'')) = None"
proof -
  have a: "(\<forall>i<length (u ''Paid. '').
       rmatch total_labelled
         (drop i (u ''Paid. '' @ u ''Total: '' @ [163] @ u ''12.34'' @ u '' today'')) [] [] = None)
     \<and> \<not> (\<exists>c cs. u '' today'' = c # cs \<and> amount_char c)"
    by (simp add: u_def All_less_Suc pattern_defs class_defs)
  have b: "\<forall>p \<in> set costPatterns. regexp_exec p (u ''nothing to pay'') = None"
    by (simp add: costPatterns_def u_def pattern_defs class_defs)
  from C6_cost a b show ?thesis by blast
qed

text \<open>The claim as stated fails: this text holds \<open>Total: \<pounds>12.34\<close>, and the cost returned
  takes the full stop behind it.\<close>

theorem C6_trailing_stop_counterexample:
  "snd (extractFromText (u ''Total: '' @ [163] @ u ''12.34.'')) = Some ([163] @ u ''12.34.'')
   \<and> [163] @ u ''12.34.'' \<noteq> [163] @ u ''12.34''"
  by (simp add: extractFromText_def costPatterns_def u_def pattern_defs class_defs)

lemma cost_at:
  assumes "\<not> (\<exists>c cs. post = c # cs \<and> amount_char c)"
  shows "rmatch cost_labelled (u ''Cost: $5.00'' @ post) [] [] = Some (u ''5.00'')"
proof -
  have stop: "rmatch [Star amount_char, GroupClose] post g cap
                = Some (take (length g - length post) g)" for g cap
    using assms by (rule amount_stops)
  show ?thesis
    by (simp add: pattern_defs u_def class_defs stop)
qed

text \<open>
  Claim C10.  (1) Every cost the extractor returns starts with the pound sign, whatever
  currency symbol the text has.  (2) The text \<open>Cost: $5.00\<close> yields the cost \<open>\<pounds>5.00\<close>.
  (3) So does every text that holds \<open>Cost: $5.00\<close> with no digit, full stop or comma
  right behind it, no match of the Total-labelled pattern, and no match of the
  Cost-labelled pattern starting before that substring.
\<close>

theorem C10_pound_prefix:
  "(\<forall>text c. snd (extractFromText text) = Some c \<longrightarrow> (\<exists>m. c = 163 # m))
   \<and> snd (extractFromText (u ''Cost: $5.00'')) = Some ([163] @ u ''5.00'')
   \<and> (\<forall>pre post.
        regexp_exec total_labelled (pre @ u ''Cost: $5.00'' @ post) = None
        \<and> (\<forall>i<length pre. rmatch cost_labelled (drop i (pre @ u ''Cost: $5.00'' @ post)) [] [] = None)
        \<and> \<not> (\<exists>c cs. post = c # cs \<and> amount_char c)
        \<longrightarrow> snd (extractFromText (pre @ u ''Cost: $5.00'' @ post)) = Some ([163] @ u ''5.00''))"
proof (rule conjI [OF _ conjI]; (intro allI impI)?)
  fix t c
  assume "snd (extractFromText t) = Some c"
  then show "\<exists>m. c = 163 # m"
    by (auto simp add: extractFromText_def)
next
  show "snd (extractFromText (u ''Cost: $5.00'')) = Some ([163] @ u ''5.00'')"
    by (simp add: extractFromText_def costPatterns_def u_def pattern_defs class_defs)
next
  fix pre post
  let ?S = "u ''Cost: $5.00'' @ post"
  assume h: "regexp_exec total_labelled (pre @ ?S) = None
        \<and> (\<forall>i<length pre. rmatch cost_labelled (drop i (pre @ ?S)) [] [] = None)
        \<and> \<not> (\<exists>c cs. post = c # cs \<and> amount_char c)"
  then have "regexp_exec cost_labelled (pre @ ?S) = regexp_exec cost_labelled ?S"
    by (intro regexp_exec_skip) simp
  also have "\<dots> = Some (u ''5.00'')"
    using cost_at [of post] h by (simp add: u_def)
  finally show "snd (extractFromText (pre @ ?S)) = Some ([163] @ u ''5.00'')"
    using h by (simp add: extractFromText_def costPatterns_def)
qed

theorem C10_pound_prefix_witness:
  "snd (extractFromText (u ''Price $7'')) = Some (163 # u ''7'')
   \<and> (\<exists>m. 163 # u ''7'' = 163 # m)
   \<and> snd (extractFromText (u ''Fee. '' @ u ''Cost: $5.00'' @ u '' paid'')) = Some ([163] @ u ''5.00'')"
proof -
  have a: "snd (extractFromText (u ''Price $7'')) = Some (163 # u ''7'')"
    by (simp add: extractFromText_def costPatterns_def u_def pattern_defs class_defs)
  have b: "regexp_exec total_labelled (u ''Fee. '' @ u ''Cost: $5.00'' @ u '' paid'') = None
        \<and> (\<forall>i<length (u ''Fee. ''). rmatch cost_labelled (drop i (u ''Fee. '' @ u ''Cost: $5.00'' @ u '' paid'')) [] [] = None)
        \<and> \<not> (\<exists>c cs. u '' paid'' = c # cs \<and> amount_char c)"
    by (simp add: u_def All_less_Suc pattern_defs class_defs)
  from C10_pound_prefix a b show ?thesis by blast
qed

section \<open>Running the model\<close>

text \<open>The definitions to unfold when a computation is run on a concrete state.\<close>

lemmas run_defs =
  ensureBrowser_def reconnect_def launchBrowser_def io_bind_def io_catch_def readSession_def
  existsSession_def
  call_def modify_def io_return_def io_throw_def unlinkSession_def writeSession_def now_def
  url_def updateSession_def arm_def capture_def

section \<open>Session flags only advance\<close>

lemma flags_kept_refl: "flags_kept f f"
  by (simp add: flags_kept_def split: option.splits session_content.splits)

lemma flags_kept_trans: "flags_kept a b \<Longrightarrow> flags_kept b c \<Longrightarrow> flags_kept a c"
  by (auto simp: flags_kept_def split: option.splits session_content.splits)

lemma advances_refl: "advances s s"
  by (simp add: advances_def flags_kept_refl)

lemma advances_trans:
  assumes "advances a b" and "advances b c"
  shows "advances a c"
proof -
  from assms(1) obtain t1 where
    t1: "trace b = trace a @ t1"
        "Launch \<notin> set t1 \<longrightarrow> flags_kept (session_file a) (session_file b)"
    by (auto simp: advances_def)
  from assms(2) obtain t2 where
    t2: "trace c = trace b @ t2"
        "Launch \<notin> set t2 \<longrightarrow> flags_kept (session_file b) (session_file c)"
    by (auto simp: advances_def)
  have "trace c = trace a @ (t1 @ t2)" using t1 t2 by simp
  moreover have "Launch \<notin> set (t1 @ t2) \<longrightarrow> flags_kept (session_file a) (session_file c)"
    using t1 t2 by (auto intro: flags_kept_trans)
  ultimately show ?thesis unfolding advances_def by blast
qed

lemma orderly_return [orderly_intros]: "orderly (io_return x)"
  by (simp add: orderly_def io_return_def advances_refl)

lemma orderly_throw [orderly_intros]: "orderly (io_throw e)"
  by (simp add: orderly_def io_throw_def advances_refl)

lemma orderly_bind [orderly_intros]:
  assumes "orderly m" and "\<And>x. orderly (f x)"
  shows "orderly (io_bind m f)"
proof (unfold orderly_def, intro allI)
  fix s
  obtain r s1 where ms: "m s = (r, s1)" by (cases "m s")
  have a1: "advances s s1" using assms(1) ms by (metis orderly_def snd_conv)
  show "advances s (snd (io_bind m f s))"
  proof (cases r)
    case (Inl e)
    then show ?thesis using ms a1 by (simp add: io_bind_def)
  next
    case (Inr x)
    have "advances s1 (snd (f x s1))" using assms(2) by (simp add: orderly_def)
    with a1 have "advances s (snd (f x s1))" by (rule advances_trans)
    then show ?thesis using ms Inr by (simp add: io_bind_def)
  qed
qed

lemma orderly_catch [orderly_intros]:
  assumes "orderly m" and "\<And>e. orderly (h e)"
  shows "orderly (io_catch m h)"
proof (unfold orderly_def, intro allI)
  fix s
  obtain r s1 where ms: "m s = (r, s1)" by (cases "m s")
  have a1: "advances s s1" using assms(1) ms by (metis orderly_def snd_conv)
  show "advances s (snd (io_catch m h s))"
  proof (cases r)
    case (Inr x)
    then show ?thesis using ms a1 by (simp add: io_catch_def)
  next
    case (Inl e)
    have "advances s1 (snd (h e s1))" using assms(2) by (simp add: orderly_def)
    with a1 have "advances s (snd (h e s1))" by (rule advances_trans)
    then show ?thesis using ms Inl by (simp add: io_catch_def)
  qed
qed

lemma orderly_call [orderly_intros]: "orderly (call reply ev)"
  by (simp add: orderly_def call_def advances_def flags_kept_refl)

lemma orderly_arm [orderly_intros]: "orderly (arm ev)"
  by (simp add: orderly_def arm_def modify_def advances_def flags_kept_refl)

lemma orderly_url [orderly_intros]: "orderly (url E p)"
  by (simp add: orderly_def url_def advances_refl)

lemma orderly_now [orderly_intros]: "orderly (now E)"
  by (simp add: orderly_def now_def advances_refl)

lemma orderly_readSession [orderly_intros]: "orderly readSession"
  by (simp add: orderly_def readSession_def advances_refl
      split: option.splits session_content.splits)

lemma orderly_existsSession [orderly_intros]: "orderly existsSession"
  by (simp add: orderly_def existsSession_def advances_refl)

lemma orderly_if [orderly_intros]:
  "(b \<Longrightarrow> orderly m) \<Longrightarrow> (\<not> b \<Longrightarrow> orderly n) \<Longrightarrow> orderly (if b then m else n)"
  by simp

lemma orderly_case_option [orderly_intros]:
  "orderly a \<Longrightarrow> (\<And>y. orderly (b y)) \<Longrightarrow> orderly (case x of None \<Rightarrow> a | Some y \<Rightarrow> b y)"
  by (cases x) simp_all

lemma orderly_case_prod [orderly_intros]:
  "(\<And>a b. orderly (f a b)) \<Longrightarrow> orderly (case x of (a, b) \<Rightarrow> f a b)"
  by (cases x) simp

lemma orderly_updateSession_loggedIn [orderly_intros]:
  "orderly (updateSession E (no_update\<lparr>set_loggedIn := Some True\<rparr>))"
  by (auto simp: orderly_def updateSession_def io_bind_def readSession_def writeSession_def
      io_return_def advances_def flags_kept_def assign_def no_update_def
      split: option.splits session_content.splits sum.splits)

lemma orderly_updateSession_formFilled [orderly_intros]:
  "orderly (updateSession E (no_update\<lparr>set_formFilled := Some True\<rparr>))"
  by (auto simp: orderly_def updateSession_def io_bind_def readSession_def writeSession_def
      io_return_def advances_def flags_kept_def assign_def no_update_def
      split: option.splits session_content.splits sum.splits)

lemma orderly_updateSession_labelGenerated [orderly_intros]:
  "orderly (updateSession E (no_update\<lparr>set_labelGenerated := Some True\<rparr>))"
  by (auto simp: orderly_def updateSession_def io_bind_def readSession_def writeSession_def
      io_return_def advances_def flags_kept_def assign_def no_update_def
      split: option.splits session_content.splits sum.splits)


lemma reconnect_cases:
  assumes "reconnect E s = (r, s1)"
  shows "(\<exists>t. trace s1 = trace s @ t \<and> Launch \<notin> set t)
         \<and> (r = Inr None \<or> (\<exists>p. r = Inr (Some p) \<and> session_file s1 = session_file s))"
  using assms
  by (auto simp: reconnect_def io_bind_def io_catch_def readSession_def existsSession_def
      call_def modify_def io_return_def unlinkSession_def
      split: if_splits option.splits session_content.splits sum.splits prod.splits list.splits)


lemma launchBrowser_launches:
  "\<exists>t. trace (snd (launchBrowser E s)) = trace s @ Launch # t"
  by (auto simp: launchBrowser_def io_bind_def call_def modify_def io_return_def now_def
      writeSession_def split: option.splits sum.splits prod.splits)

lemma orderly_ensureBrowser [orderly_intros]: "orderly (ensureBrowser E)"
  unfolding orderly_def
proof
  fix s
  obtain r s1 where rs: "reconnect E s = (r, s1)" by (cases "reconnect E s")
  from reconnect_cases [OF rs] obtain t where
    t: "trace s1 = trace s @ t" "Launch \<notin> set t"
    and r: "r = Inr None \<or> (\<exists>p. r = Inr (Some p) \<and> session_file s1 = session_file s)"
    by blast
  from r show "advances s (snd (ensureBrowser E s))"
  proof
    assume none: "r = Inr None"
    obtain t' where "trace (snd (launchBrowser E s1)) = trace s1 @ Launch # t'"
      using launchBrowser_launches by blast
    then have "trace (snd (ensureBrowser E s)) = trace s @ (t @ Launch # t')"
      using rs none t by (simp add: ensureBrowser_def io_bind_def)
    then show ?thesis unfolding advances_def by (metis in_set_conv_decomp)
  next
    assume "\<exists>p. r = Inr (Some p) \<and> session_file s1 = session_file s"
    then obtain p where p: "r = Inr (Some p)" "session_file s1 = session_file s" by blast
    then have "snd (ensureBrowser E s) = s1"
      using rs by (simp add: ensureBrowser_def io_bind_def io_return_def)
    then show ?thesis using t p by (auto simp: advances_def flags_kept_refl)
  qed
qed

lemma orderly_capture [orderly_intros]: "orderly (capture E p kind)"
  unfolding capture_def by (intro orderly_intros)

lemma orderly_fill_first [orderly_intros]: "orderly (fill_first E p selectors v)"
  by (induction selectors) (auto intro!: orderly_intros)

lemma orderly_click_first [orderly_intros]: "orderly (click_first E p selectors)"
  by (induction selectors) (auto intro!: orderly_intros)

lemma orderly_click_confirm [orderly_intros]: "orderly (click_confirm E p selectors)"
  by (induction selectors) (auto intro!: orderly_intros)

lemma orderly_login [orderly_intros]: "orderly (login E)"
  unfolding login_def by (intro orderly_intros)

lemma orderly_fill_if_found [orderly_intros]: "orderly q \<Longrightarrow> orderly (fill_if_found E q v)"
  unfolding fill_if_found_def by (intro orderly_intros)

lemma orderly_fillField_variant [orderly_intros]: "orderly (fillField_variant E p label v)"
  unfolding fillField_variant_def by (intro orderly_intros)

lemma orderly_fillField [orderly_intros]: "orderly (fillField E p labels v)"
  by (induction labels) (auto intro!: orderly_intros)

lemma orderly_fill_optional [orderly_intros]: "orderly (fill_optional E p labels v)"
  unfolding fill_optional_def by (intro orderly_intros)

lemma orderly_fill_dimension [orderly_intros]: "orderly (fill_dimension E p labels v)"
  unfolding fill_dimension_def by (intro orderly_intros)

lemma orderly_select_dropdown [orderly_intros]:
  "orderly (select_dropdown E p selectors serviceCode serviceName)"
  by (induction selectors) (auto intro!: orderly_intros)

lemma orderly_click_if_found [orderly_intros]: "orderly (click_if_found E p selector)"
  unfolding click_if_found_def by (intro orderly_intros)

lemma orderly_selectService [orderly_intros]: "orderly (selectService E p serviceCode)"
  unfolding selectService_def by (intro orderly_intros)


lemma orderly_extractConfirmation [orderly_intros]: "orderly (extractConfirmation E p)"
  unfolding extractConfirmation_def by (intro orderly_intros)

lemma orderly_submit_attempt [orderly_intros]: "orderly (submit_attempt E p)"
  unfolding submit_attempt_def by (intro orderly_intros)


lemma orderly_labelNameOf [orderly_intros]: "orderly (labelNameOf E suggested)"
  unfolding labelNameOf_def by (intro orderly_intros)

lemma orderly_download_attempt [orderly_intros]: "orderly (download_attempt E p)"
  unfolding download_attempt_def by (intro orderly_intros)






section \<open>Preconditions of submit and download\<close>

lemma ensureBrowser_reconnects:
  assumes "session_file (s :: state) = Some (Descriptor d)"
    and "connect_reply (E :: env) (trace s @ [ConnectOverCDP (wsEndpoint d)]) = Inr (b, (c, p # ps) # cs)"
  shows "ensureBrowser E s =
           (Inr p, s\<lparr>trace := trace s @ [ConnectOverCDP (wsEndpoint d)],
                     this_browser := Some b, this_context := Some c, this_page := Some p\<rparr>)"
  using assms
  by (simp add: ensureBrowser_def reconnect_def io_bind_def io_catch_def readSession_def
      existsSession_def call_def modify_def io_return_def)

text \<open>
  Claim C1, as the code has it.  \<^verbatim>\<open>submit\<close> acquires the page before it checks the
  precondition.  (1) In every state whose session file shows \<open>formFilled = false\<close> and
  whose browser is reached again with a page, \<^verbatim>\<open>submit\<close> returns the precondition
  failure; the only Playwright call it makes is the reconnection, and the session file is
  unchanged.  (2) Whatever the acquisition did, when it returns a page and the session file
  read after it shows \<open>formFilled = false\<close>, \<^verbatim>\<open>submit\<close> returns the precondition
  failure and does nothing more.
\<close>

theorem C1_submit_precondition:
  "(\<forall>(E :: env) (s :: state) d b c p ps cs.
      session_file s = Some (Descriptor d) \<and> \<not> formFilled d
      \<and> connect_reply E (trace s @ [ConnectOverCDP (wsEndpoint d)]) = Inr (b, (c, p # ps) # cs)
      \<longrightarrow> submit E s =
            (Inr form_not_filled,
             s\<lparr>trace := trace s @ [ConnectOverCDP (wsEndpoint d)],
               this_browser := Some b, this_context := Some c, this_page := Some p\<rparr>))
   \<and> (\<forall>E s p s1 d.
      ensureBrowser E s = (Inr p, s1) \<and> session_file s1 = Some (Descriptor d) \<and> \<not> formFilled d
      \<longrightarrow> submit E s = (Inr form_not_filled, s1))"
proof (intro conjI allI impI)
  fix E :: env and s :: state and d b c p ps cs
  assume h: "session_file s = Some (Descriptor d) \<and> \<not> formFilled d
      \<and> connect_reply E (trace s @ [ConnectOverCDP (wsEndpoint d)]) = Inr (b, (c, p # ps) # cs)"
  then have "ensureBrowser E s =
           (Inr p, s\<lparr>trace := trace s @ [ConnectOverCDP (wsEndpoint d)],
                     this_browser := Some b, this_context := Some c, this_page := Some p\<rparr>)"
    by (intro ensureBrowser_reconnects) simp_all
  with h show "submit E s =
            (Inr form_not_filled,
             s\<lparr>trace := trace s @ [ConnectOverCDP (wsEndpoint d)],
               this_browser := Some b, this_context := Some c, this_page := Some p\<rparr>)"
    by (simp add: submit_def io_bind_def readSession_def io_return_def)
next
  fix E s p s1 d
  assume "ensureBrowser E s = (Inr p, s1) \<and> session_file s1 = Some (Descriptor d) \<and> \<not> formFilled d"
  then show "submit E s = (Inr form_not_filled, s1)"
    by (simp add: submit_def io_bind_def readSession_def io_return_def)
qed

theorem C1_submit_precondition_witness:
  "submit calm_env (new_client (Some (Descriptor (old_session True False False))))
     = (Inr form_not_filled,
        (new_client (Some (Descriptor (old_session True False False))))
          \<lparr>trace := [ConnectOverCDP (u ''ws://127.0.0.1:9222/old'')],
           this_browser := Some 1, this_context := Some 1, this_page := Some 1\<rparr>)
   \<and> submit relaunch_env (new_client (Some (Descriptor (old_session True False False))))
     = (Inr form_not_filled,
        \<lparr>this_browser = Some 2, this_context = Some 7, this_page = Some 7,
         session_file = Some (Descriptor fresh_session),
         trace = [ConnectOverCDP (u ''ws://127.0.0.1:9222/old''), Launch, NewContext 2,
                  NewPage 7]\<rparr>)"
proof -
  let ?s = "new_client (Some (Descriptor (old_session True False False)))"
  let ?s1 = "\<lparr>this_browser = Some 2, this_context = Some 7, this_page = Some 7,
         session_file = Some (Descriptor fresh_session),
         trace = [ConnectOverCDP (u ''ws://127.0.0.1:9222/old''), Launch, NewContext 2,
                  NewPage 7]\<rparr>"
  have a: "session_file ?s = Some (Descriptor (old_session True False False))
      \<and> \<not> formFilled (old_session True False False)
      \<and> connect_reply calm_env (trace ?s @ [ConnectOverCDP (wsEndpoint (old_session True False False))])
          = Inr (1, (1, 1 # []) # [])"
    by (simp add: new_client_def old_session_def calm_env_def)
  have b: "ensureBrowser relaunch_env ?s = (Inr 7, ?s1) \<and> session_file ?s1 = Some (Descriptor fresh_session)
      \<and> \<not> formFilled fresh_session"
    by (simp add: run_defs relaunch_env_def calm_env_def new_client_def old_session_def
        fresh_session_def u_def)
  from C1_submit_precondition a
  have "submit calm_env ?s =
            (Inr form_not_filled,
             ?s\<lparr>trace := trace ?s @ [ConnectOverCDP (wsEndpoint (old_session True False False))],
               this_browser := Some 1, this_context := Some 1, this_page := Some 1\<rparr>)"
    by blast
  moreover from C1_submit_precondition b
  have "submit relaunch_env ?s = (Inr form_not_filled, ?s1)"
    by blast
  ultimately show ?thesis by (simp add: new_client_def old_session_def)
qed

text \<open>The claim as stated fails: with a session file that shows \<open>formFilled = false\<close> and
  a browser that is gone, \<^verbatim>\<open>submit\<close> launches a browser and replaces the session
  file.\<close>

theorem C1_dead_browser_counterexample:
  "Launch \<in> set (trace (snd (submit relaunch_env (new_client (Some (Descriptor (old_session True False False)))))))
   \<and> session_file (new_client (Some (Descriptor (old_session True False False)))) = Some (Descriptor (old_session True False False))
   \<and> session_file (snd (submit relaunch_env (new_client (Some (Descriptor (old_session True False False))))))
       = Some (Descriptor fresh_session)
   \<and> fresh_session \<noteq> old_session True False False"
  by (simp add: submit_def run_defs relaunch_env_def calm_env_def new_client_def
      old_session_def fresh_session_def u_def)

text \<open>
  Claim C2, as the code has it.  \<^verbatim>\<open>downloadLabel\<close> acquires the page before it checks
  the precondition.  (1) In every state whose session file shows \<open>labelGenerated = false\<close>
  and whose browser is reached again with a page, \<^verbatim>\<open>downloadLabel\<close> returns the
  precondition failure; the only Playwright call it makes is the reconnection, and the
  session file is unchanged.  (2) Whatever the acquisition did, when it returns a page and
  the session file read after it shows \<open>labelGenerated = false\<close>, \<^verbatim>\<open>downloadLabel\<close>
  returns the precondition failure and does nothing more.
\<close>

theorem C2_download_precondition:
  "(\<forall>(E :: env) (s :: state) d b c p ps cs.
      session_file s = Some (Descriptor d) \<and> \<not> labelGenerated d
      \<and> connect_reply E (trace s @ [ConnectOverCDP (wsEndpoint d)]) = Inr (b, (c, p # ps) # cs)
      \<longrightarrow> downloadLabel E s =
            (Inr label_not_generated,
             s\<lparr>trace := trace s @ [ConnectOverCDP (wsEndpoint d)],
               this_browser := Some b, this_context := Some c, this_page := Some p\<rparr>))
   \<and> (\<forall>E s p s1 d.
      ensureBrowser E s = (Inr p, s1) \<and> session_file s1 = Some (Descriptor d) \<and> \<not> labelGenerated d
      \<longrightarrow> downloadLabel E s = (Inr label_not_generated, s1))"
proof (intro conjI allI impI)
  fix E :: env and s :: state and d b c p ps cs
  assume h: "session_file s = Some (Descriptor d) \<and> \<not> labelGenerated d
      \<and> connect_reply E (trace s @ [ConnectOverCDP (wsEndpoint d)]) = Inr (b, (c, p # ps) # cs)"
  then have "ensureBrowser E s =
           (Inr p, s\<lparr>trace := trace s @ [ConnectOverCDP (wsEndpoint d)],
                     this_browser := Some b, this_context := Some c, this_page := Some p\<rparr>)"
    using ensureBrowser_reconnects [of s d E b c p ps cs] by simp
  with h show "downloadLabel E s =
            (Inr label_not_generated,
             s\<lparr>trace := trace s @ [ConnectOverCDP (wsEndpoint d)],
               this_browser := Some b, this_context := Some c, this_page := Some p\<rparr>)"
    by (simp add: downloadLabel_def io_bind_def readSession_def io_return_def)
next
  fix E s p s1 d
  assume "ensureBrowser E s = (Inr p, s1) \<and> session_file s1 = Some (Descriptor d) \<and> \<not> labelGenerated d"
  then show "downloadLabel E s = (Inr label_not_generated, s1)"
    by (simp add: downloadLabel_def io_bind_def readSession_def io_return_def)
qed

theorem C2_download_precondition_witness:
  "downloadLabel calm_env (new_client (Some (Descriptor (old_session True True False))))
     = (Inr label_not_generated,
        (new_client (Some (Descriptor (old_session True True False))))
          \<lparr>trace := [ConnectOverCDP (u ''ws://127.0.0.1:9222/old'')],
           this_browser := Some 1, this_context := Some 1, this_page := Some 1\<rparr>)
   \<and> downloadLabel relaunch_env (new_client (Some (Descriptor (old_session True True False))))
     = (Inr label_not_generated,
        \<lparr>this_browser = Some 2, this_context = Some 7, this_page = Some 7,
         session_file = Some (Descriptor fresh_session),
         trace = [ConnectOverCDP (u ''ws://127.0.0.1:9222/old''), Launch, NewContext 2,
                  NewPage 7]\<rparr>)"
proof -
  let ?s = "new_client (Some (Descriptor (old_session True True False)))"
  let ?s1 = "\<lparr>this_browser = Some 2, this_context = Some 7, this_page = Some 7,
         session_file = Some (Descriptor fresh_session),
         trace = [ConnectOverCDP (u ''ws://127.0.0.1:9222/old''), Launch, NewContext 2,
                  NewPage 7]\<rparr>"
  have a: "session_file ?s = Some (Descriptor (old_session True True False))
      \<and> \<not> labelGenerated (old_session True True False)
      \<and> connect_reply calm_env (trace ?s @ [ConnectOverCDP (wsEndpoint (old_session True True False))])
          = Inr (1, (1, 1 # []) # [])"
    by (simp add: new_client_def old_session_def calm_env_def)
  have b: "ensureBrowser relaunch_env ?s = (Inr 7, ?s1) \<and> session_file ?s1 = Some (Descriptor fresh_session)
      \<and> \<not> labelGenerated fresh_session"
    by (simp add: run_defs relaunch_env_def calm_env_def new_client_def old_session_def
        fresh_session_def u_def)
  from C2_download_precondition a
  have "downloadLabel calm_env ?s =
            (Inr label_not_generated,
             ?s\<lparr>trace := trace ?s @ [ConnectOverCDP (wsEndpoint (old_session True True False))],
               this_browser := Some 1, this_context := Some 1, this_page := Some 1\<rparr>)"
    by blast
  moreover from C2_download_precondition b
  have "downloadLabel relaunch_env ?s = (Inr label_not_generated, ?s1)"
    by blast
  ultimately show ?thesis by (simp add: new_client_def old_session_def)
qed

text \<open>The claim as stated fails: with a session file that shows
  \<open>labelGenerated = false\<close> and a browser that is gone, \<^verbatim>\<open>downloadLabel\<close> launches a
  browser and replaces the session file.\<close>

theorem C2_dead_browser_counterexample:
  "Launch \<in> set (trace (snd (downloadLabel relaunch_env (new_client (Some (Descriptor (old_session True True False)))))))
   \<and> session_file (new_client (Some (Descriptor (old_session True True False)))) = Some (Descriptor (old_session True True False))
   \<and> session_file (snd (downloadLabel relaunch_env (new_client (Some (Descriptor (old_session True True False))))))
       = Some (Descriptor fresh_session)
   \<and> fresh_session \<noteq> old_session True True False"
  by (simp add: downloadLabel_def run_defs relaunch_env_def calm_env_def new_client_def
      old_session_def fresh_session_def u_def)

section \<open>Cold start\<close>

lemma launchBrowser_plain:
  assumes "launch_reply E (trace (s :: state) @ [Launch]) = Inr (b, ws)"
    and "\<not> truthy ws"
    and "handle_reply E (trace s @ [Launch, NewContext b]) = Inr c"
    and "handle_reply E (trace s @ [Launch, NewContext b, NewPage c]) = Inr p"
  shows "launchBrowser E s =
           (Inr p, s\<lparr>trace := trace s @ [Launch, NewContext b, NewPage c],
                     this_browser := Some b, this_context := Some c, this_page := Some p\<rparr>)"
  using assms
  by (simp add: launchBrowser_def io_bind_def call_def modify_def io_return_def truthy_def
      split: option.splits)









section \<open>Operations without a session file\<close>

lemma orderly_grows: "orderly m \<Longrightarrow> \<exists>t. trace (snd (m s)) = trace s @ t"
  by (auto simp: orderly_def advances_def)

lemma emits_call: "emits ev (call reply ev)"
  by (simp add: emits_def call_def)

lemma emits_bind:
  assumes "emits ev m" and "\<And>x. orderly (f x)"
  shows "emits ev (io_bind m f)"
proof (unfold emits_def, intro allI)
  fix s
  obtain r s1 where ms: "m s = (r, s1)" by (cases "m s")
  from assms(1) ms obtain t where t: "trace s1 = trace s @ ev # t"
    by (metis emits_def snd_conv)
  show "\<exists>t. trace (snd (io_bind m f s)) = trace s @ ev # t"
  proof (cases r)
    case (Inl e)
    then show ?thesis using ms t by (simp add: io_bind_def)
  next
    case (Inr x)
    from orderly_grows [OF assms(2), of x s1] obtain t' where
      "trace (snd (f x s1)) = trace s1 @ t'" by blast
    then show ?thesis using ms Inr t by (simp add: io_bind_def)
  qed
qed

lemma emits_catch:
  assumes "emits ev m" and "\<And>e. orderly (h e)"
  shows "emits ev (io_catch m h)"
proof (unfold emits_def, intro allI)
  fix s
  obtain r s1 where ms: "m s = (r, s1)" by (cases "m s")
  from assms(1) ms obtain t where t: "trace s1 = trace s @ ev # t"
    by (metis emits_def snd_conv)
  show "\<exists>t. trace (snd (io_catch m h s)) = trace s @ ev # t"
  proof (cases r)
    case (Inr x)
    then show ?thesis using ms t by (simp add: io_catch_def)
  next
    case (Inl e)
    from orderly_grows [OF assms(2), of e s1] obtain t' where
      "trace (snd (h e s1)) = trace s1 @ t'" by blast
    then show ?thesis using ms Inl t by (simp add: io_catch_def)
  qed
qed

lemma emits_click_first: "emits (Query p selector) (click_first E p (selector # selectors))"
  by (simp del: click_first.simps add: click_first.simps(2))
     (intro emits_bind emits_catch emits_call orderly_intros)

lemma never_returns_return: "x \<noteq> r \<Longrightarrow> never_returns r (io_return x)"
  by (simp add: never_returns_def io_return_def)

lemma never_returns_bind: "(\<And>x. never_returns r (f x)) \<Longrightarrow> never_returns r (io_bind m f)"
  by (auto simp: never_returns_def io_bind_def split: prod.splits sum.splits)

lemma never_returns_catch:
  "never_returns r m \<Longrightarrow> (\<And>e. never_returns r (h e)) \<Longrightarrow> never_returns r (io_catch m h)"
  by (auto simp: never_returns_def io_catch_def split: prod.splits sum.splits) (metis fst_conv)

lemma never_returns_case_prod:
  "(\<And>a b. never_returns r (f a b)) \<Longrightarrow> never_returns r (case x of (a, b) \<Rightarrow> f a b)"
  by (cases x) simp

lemmas never_returns_intros =
  never_returns_bind never_returns_catch never_returns_case_prod never_returns_return

lemma submit_attempt_result: "never_returns form_not_filled (submit_attempt E p)"
  unfolding submit_attempt_def
  by (intro never_returns_intros) (simp_all add: form_not_filled_def empty_result_def)

lemma download_attempt_result: "never_returns label_not_generated (download_attempt E p)"
  unfolding download_attempt_def
  by (intro never_returns_intros) (simp_all add: label_not_generated_def empty_result_def)

lemma submit_attempt_begins:
  \<open>emits (Query p (u ''button:has-text("Buy postage")'')) (submit_attempt E p)\<close>
  unfolding submit_attempt_def submitButtonSelectors_def list.map
  by (intro emits_bind emits_catch emits_click_first orderly_intros)

lemma download_attempt_begins:
  \<open>\<exists>t. trace (snd (download_attempt E p s))
        = trace s @ [WaitForDownloadEvent p, Query p (u ''button:has-text("Download")'')] @ t\<close>
proof -
  let ?s1 = "s\<lparr>trace := trace s @ [WaitForDownloadEvent p]\<rparr>"
  let ?rest = "io_catch
       (io_bind (click_first E p downloadSelectors) (\<lambda>_.
        io_bind (call (download_reply E) (AwaitDownload p)) (\<lambda>(dl, suggestedFilename).
        io_bind (labelNameOf E suggestedFilename) (\<lambda>tracking.
        io_bind (call (unit_reply E)
                   (SaveAs dl (LABEL_DIR @ u ''/'' @ tracking @ u ''.pdf''))) (\<lambda>_.
        io_return
          (empty_result
             \<lparr>success := Some True,
              labelPath := Some (LABEL_DIR @ u ''/'' @ tracking @ u ''.pdf''),
              trackingNumber := Some tracking,
              message := Some (u ''Label downloaded successfully to '' @ LABEL_DIR @ u ''/''
                               @ tracking @ u ''.pdf'')\<rparr>))))))
       (\<lambda>error_message.
        io_bind (capture E p ''download-error'') (\<lambda>errorScreenshot.
        io_return
          (empty_result
             \<lparr>error := Some True,
              message := Some (u ''Download failed: '' @ error_message),
              screenshot := Some errorScreenshot\<rparr>)))"
  have split: "download_attempt E p s = ?rest ?s1"
    by (simp add: download_attempt_def io_catch_def io_bind_def arm_def modify_def)
  have \<open>emits (Query p (u ''button:has-text("Download")'')) ?rest\<close>
    unfolding downloadSelectors_def list.map
    by (intro emits_bind emits_catch emits_click_first orderly_intros)
  then obtain t where \<open>trace (snd (?rest ?s1)) = trace ?s1 @ Query p (u ''button:has-text("Download")'') # t\<close>
    unfolding emits_def by blast
  with split show ?thesis by simp
qed

lemma ensureBrowser_no_file:
  assumes "session_file (s :: state) = None"
    and "launch_reply E (trace s @ [Launch]) = Inr (b, ws)"
    and "\<not> truthy ws"
    and "handle_reply E (trace s @ [Launch, NewContext b]) = Inr c"
    and "handle_reply E (trace s @ [Launch, NewContext b, NewPage c]) = Inr p"
  shows "ensureBrowser E s =
           (Inr p, s\<lparr>trace := trace s @ [Launch, NewContext b, NewPage c],
                     this_browser := Some b, this_context := Some c, this_page := Some p\<rparr>)"
proof -
  have "reconnect E s = (Inr None, s)"
    using assms(1)
    by (simp add: reconnect_def io_bind_def existsSession_def io_return_def)
  then show ?thesis
    using launchBrowser_plain [OF assms(2-5)] by (simp add: ensureBrowser_def io_bind_def)
qed

lemma operations_unchecked:
  assumes "ensureBrowser E s = (Inr p, s1)" and "session_file s1 = None"
  shows \<open>submit E s = submit_attempt E p s1
         \<and> fst (submit E s) \<noteq> Inr form_not_filled
         \<and> (\<exists>t. trace (snd (submit E s))
                = trace s1 @ [Query p (u ''button:has-text("Buy postage")'')] @ t)
         \<and> downloadLabel E s = download_attempt E p s1
         \<and> fst (downloadLabel E s) \<noteq> Inr label_not_generated
         \<and> (\<exists>t. trace (snd (downloadLabel E s))
                = trace s1 @ [WaitForDownloadEvent p,
                              Query p (u ''button:has-text("Download")'')] @ t)\<close>
proof -
  have sub: "submit E s = submit_attempt E p s1"
    using assms by (simp add: submit_def io_bind_def readSession_def)
  have dl: "downloadLabel E s = download_attempt E p s1"
    using assms by (simp add: downloadLabel_def io_bind_def readSession_def)
  have r1: "fst (submit E s) \<noteq> Inr form_not_filled"
    using submit_attempt_result [of E p] by (simp add: sub never_returns_def)
  have r2: "fst (downloadLabel E s) \<noteq> Inr label_not_generated"
    using download_attempt_result [of E p] by (simp add: dl never_returns_def)
  obtain t1 where \<open>trace (snd (submit_attempt E p s1))
      = trace s1 @ Query p (u ''button:has-text("Buy postage")'') # t1\<close>
    using submit_attempt_begins [of p E] unfolding emits_def by blast
  then have t1: \<open>\<exists>t. trace (snd (submit E s))
                 = trace s1 @ [Query p (u ''button:has-text("Buy postage")'')] @ t\<close>
    by (simp add: sub)
  have t2: \<open>\<exists>t. trace (snd (downloadLabel E s))
                 = trace s1 @ [WaitForDownloadEvent p,
                               Query p (u ''button:has-text("Download")'')] @ t\<close>
    using download_attempt_begins [of E p s1] by (simp add: dl)
  from sub r1 t1 dl r2 t2 show ?thesis by blast
qed

text \<open>
  Claim C9, as the code has it.  The precondition is checked after the page is acquired.
  (1) Whenever the acquisition returns a page and leaves no session file, \<^verbatim>\<open>submit\<close>
  and \<^verbatim>\<open>downloadLabel\<close> run their attempt without a check and do not return their
  precondition failure: right behind the acquisition \<^verbatim>\<open>submit\<close> asks the page for the
  first submit button, and \<^verbatim>\<open>downloadLabel\<close> arms the download listener and asks for
  the first download button.  (2) This is what happens from a state without a session
  file when the launched browser reports no endpoint, so that the cold start writes no
  file.
\<close>

theorem C9_check_skipped:
  \<open>(\<forall>E s p s1.
      ensureBrowser E s = (Inr p, s1) \<and> session_file s1 = None
      \<longrightarrow> submit E s = submit_attempt E p s1
          \<and> fst (submit E s) \<noteq> Inr form_not_filled
          \<and> (\<exists>t. trace (snd (submit E s))
                 = trace s1 @ [Query p (u ''button:has-text("Buy postage")'')] @ t)
          \<and> downloadLabel E s = download_attempt E p s1
          \<and> fst (downloadLabel E s) \<noteq> Inr label_not_generated
          \<and> (\<exists>t. trace (snd (downloadLabel E s))
                 = trace s1 @ [WaitForDownloadEvent p,
                               Query p (u ''button:has-text("Download")'')] @ t))
   \<and> (\<forall>(E :: env) (s :: state) b ws c p.
      session_file s = None
      \<and> launch_reply E (trace s @ [Launch]) = Inr (b, ws) \<and> \<not> truthy ws
      \<and> handle_reply E (trace s @ [Launch, NewContext b]) = Inr c
      \<and> handle_reply E (trace s @ [Launch, NewContext b, NewPage c]) = Inr p
      \<longrightarrow> fst (submit E s) \<noteq> Inr form_not_filled
          \<and> (\<exists>t. trace (snd (submit E s))
                 = trace s @ [Launch, NewContext b, NewPage c,
                              Query p (u ''button:has-text("Buy postage")'')] @ t)
          \<and> fst (downloadLabel E s) \<noteq> Inr label_not_generated
          \<and> (\<exists>t. trace (snd (downloadLabel E s))
                 = trace s @ [Launch, NewContext b, NewPage c, WaitForDownloadEvent p,
                              Query p (u ''button:has-text("Download")'')] @ t))\<close>
proof (rule conjI; intro allI impI)
  fix E s p s1
  assume "ensureBrowser E s = (Inr p, s1) \<and> session_file s1 = None"
  then show \<open>submit E s = submit_attempt E p s1
          \<and> fst (submit E s) \<noteq> Inr form_not_filled
          \<and> (\<exists>t. trace (snd (submit E s))
                 = trace s1 @ [Query p (u ''button:has-text("Buy postage")'')] @ t)
          \<and> downloadLabel E s = download_attempt E p s1
          \<and> fst (downloadLabel E s) \<noteq> Inr label_not_generated
          \<and> (\<exists>t. trace (snd (downloadLabel E s))
                 = trace s1 @ [WaitForDownloadEvent p,
                               Query p (u ''button:has-text("Download")'')] @ t)\<close>
    using operations_unchecked [of E s p s1] by blast
next
  fix E :: env and s :: state and b ws c p
  assume h: "session_file s = None
      \<and> launch_reply E (trace s @ [Launch]) = Inr (b, ws) \<and> \<not> truthy ws
      \<and> handle_reply E (trace s @ [Launch, NewContext b]) = Inr c
      \<and> handle_reply E (trace s @ [Launch, NewContext b, NewPage c]) = Inr p"
  let ?s1 = "s\<lparr>trace := trace s @ [Launch, NewContext b, NewPage c],
                this_browser := Some b, this_context := Some c, this_page := Some p\<rparr>"
  have eb: "ensureBrowser E s = (Inr p, ?s1)"
    using h ensureBrowser_no_file [of s E b ws c p] by simp
  have none: "session_file ?s1 = None"
    using h by simp
  from operations_unchecked [OF eb none]
  have r1: "fst (submit E s) \<noteq> Inr form_not_filled"
    and t1: \<open>\<exists>t. trace (snd (submit E s))
                = trace ?s1 @ [Query p (u ''button:has-text("Buy postage")'')] @ t\<close>
    and r2: "fst (downloadLabel E s) \<noteq> Inr label_not_generated"
    and t2: \<open>\<exists>t. trace (snd (downloadLabel E s))
                = trace ?s1 @ [WaitForDownloadEvent p,
                               Query p (u ''button:has-text("Download")'')] @ t\<close>
    by blast+
  from r1 t1 r2 t2
  show \<open>fst (submit E s) \<noteq> Inr form_not_filled
          \<and> (\<exists>t. trace (snd (submit E s))
                 = trace s @ [Launch, NewContext b, NewPage c,
                              Query p (u ''button:has-text("Buy postage")'')] @ t)
          \<and> fst (downloadLabel E s) \<noteq> Inr label_not_generated
          \<and> (\<exists>t. trace (snd (downloadLabel E s))
                 = trace s @ [Launch, NewContext b, NewPage c, WaitForDownloadEvent p,
                              Query p (u ''button:has-text("Download")'')] @ t)\<close>
    by simp
qed

theorem C9_check_skipped_witness:
  \<open>fst (submit calm_env (new_client None)) \<noteq> Inr form_not_filled
   \<and> (\<exists>t. trace (snd (submit calm_env (new_client None)))
          = [Launch, NewContext 2, NewPage 7, Query 7 (u ''button:has-text("Buy postage")'')] @ t)
   \<and> fst (downloadLabel calm_env (new_client None)) \<noteq> Inr label_not_generated
   \<and> (\<exists>t. trace (snd (downloadLabel calm_env (new_client None)))
          = [Launch, NewContext 2, NewPage 7, WaitForDownloadEvent 7,
             Query 7 (u ''button:has-text("Download")'')] @ t)
   \<and> submit calm_env (new_client None)
       = submit_attempt calm_env 7
           \<lparr>this_browser = Some 2, this_context = Some 7, this_page = Some 7,
            session_file = None, trace = [Launch, NewContext 2, NewPage 7]\<rparr>
   \<and> downloadLabel calm_env (new_client None)
       = download_attempt calm_env 7
           \<lparr>this_browser = Some 2, this_context = Some 7, this_page = Some 7,
            session_file = None, trace = [Launch, NewContext 2, NewPage 7]\<rparr>\<close>
proof -
  let ?s = "new_client None"
  let ?s1 = "\<lparr>this_browser = Some 2, this_context = Some 7, this_page = Some 7,
            session_file = None, trace = [Launch, NewContext 2, NewPage 7]\<rparr>"
  have a: "session_file ?s = None
      \<and> launch_reply calm_env (trace ?s @ [Launch]) = Inr (2, None) \<and> \<not> truthy None
      \<and> handle_reply calm_env (trace ?s @ [Launch, NewContext 2]) = Inr 7
      \<and> handle_reply calm_env (trace ?s @ [Launch, NewContext 2, NewPage 7]) = Inr 7"
    by (simp add: new_client_def calm_env_def truthy_def)
  have b: "ensureBrowser calm_env ?s = (Inr 7, ?s1) \<and> session_file ?s1 = None"
    by (simp add: run_defs calm_env_def new_client_def)
  from C9_check_skipped a
  have \<open>fst (submit calm_env ?s) \<noteq> Inr form_not_filled
          \<and> (\<exists>t. trace (snd (submit calm_env ?s))
                 = trace ?s @ [Launch, NewContext 2, NewPage 7,
                              Query 7 (u ''button:has-text("Buy postage")'')] @ t)
          \<and> fst (downloadLabel calm_env ?s) \<noteq> Inr label_not_generated
          \<and> (\<exists>t. trace (snd (downloadLabel calm_env ?s))
                 = trace ?s @ [Launch, NewContext 2, NewPage 7, WaitForDownloadEvent 7,
                              Query 7 (u ''button:has-text("Download")'')] @ t)\<close>
    by blast
  moreover from C9_check_skipped b
  have "submit calm_env ?s = submit_attempt calm_env 7 ?s1
        \<and> downloadLabel calm_env ?s = download_attempt calm_env 7 ?s1"
    by blast
  ultimately show ?thesis by (simp add: new_client_def)
qed

text \<open>The claim as stated fails: with no session file, a cold start whose browser
  reports an endpoint writes a fresh descriptor before the check, and both operations
  return their precondition failure without a look at the page.\<close>

theorem C9_fresh_descriptor_counterexample:
  "session_file (new_client None) = None
   \<and> submit (calm_env\<lparr>launch_reply := \<lambda>h. Inr (2, Some (u ''ws://127.0.0.1:9333/new''))\<rparr>)
        (new_client None)
      = (Inr form_not_filled,
         \<lparr>this_browser = Some 2, this_context = Some 7, this_page = Some 7,
          session_file = Some (Descriptor fresh_session), trace = [Launch, NewContext 2, NewPage 7]\<rparr>)
   \<and> downloadLabel (calm_env\<lparr>launch_reply := \<lambda>h. Inr (2, Some (u ''ws://127.0.0.1:9333/new''))\<rparr>)
        (new_client None)
      = (Inr label_not_generated,
         \<lparr>this_browser = Some 2, this_context = Some 7, this_page = Some 7,
          session_file = Some (Descriptor fresh_session), trace = [Launch, NewContext 2, NewPage 7]\<rparr>)"
  by (simp add: submit_def downloadLabel_def run_defs calm_env_def new_client_def
      fresh_session_def u_def)

section \<open>The element resolver never throws\<close>

lemma catch_false_returns: "\<exists>b s1. io_catch m (\<lambda>e. io_return False) s = (Inr b, s1)"
  by (cases "m s") (auto simp: io_catch_def io_return_def split: sum.splits)

lemma fillField_returns: "\<exists>s1. fillField E p labels v s = (Inr (), s1)"
proof (induction labels arbitrary: s)
  case Nil
  then show ?case by (simp add: io_return_def)
next
  case (Cons label labels)
  obtain filled s1 where
    "io_catch (fillField_variant E p label v) (\<lambda>e. io_return False) s = (Inr filled, s1)"
    using catch_false_returns by blast
  then show ?case using Cons.IH [of s1] by (simp add: io_bind_def io_return_def)
qed

lemma fillField_variant_no_match:
  assumes "\<forall>h. query_reply E h = Inr None"
  shows "fillField_variant E p label v s =
           (Inr False,
            s\<lparr>trace := trace s @
                [Query p (attribute_selector ''aria-label'' label),
                 Query p (attribute_selector ''placeholder'' label),
                 Query p (label_selector label),
                 Query p (attribute_selector ''name'' (nameVariantOf E label)),
                 Query p (attribute_selector ''id'' (nameVariantOf E label)),
                 Query p (attribute_selector ''data-testid'' (nameVariantOf E label))]\<rparr>)"
  by (simp add: fillField_variant_def fill_if_found_def io_bind_def call_def io_return_def assms)

lemma fillField_no_match:
  assumes "\<forall>h. query_reply E h = Inr None"
  shows "fillField E p labels v s =
           (Inr (),
            s\<lparr>trace := trace s @ concat (map (\<lambda>label.
                [Query p (attribute_selector ''aria-label'' label),
                 Query p (attribute_selector ''placeholder'' label),
                 Query p (label_selector label),
                 Query p (attribute_selector ''name'' (nameVariantOf E label)),
                 Query p (attribute_selector ''id'' (nameVariantOf E label)),
                 Query p (attribute_selector ''data-testid'' (nameVariantOf E label))]) labels)\<rparr>)"
proof (induction labels arbitrary: s)
  case Nil
  then show ?case by (simp add: io_return_def)
next
  case (Cons label labels)
  show ?case
    by (simp add: io_bind_def io_catch_def fillField_variant_no_match [OF assms] Cons.IH)
qed

subsection \<open>Computations that only look\<close>

lemma looks_only_return: "looks_only (io_return x)"
  unfolding looks_only_def io_return_def
  by (intro allI exI [of _ "[]"]) simp

lemma looks_only_call: "lookup_event ev \<Longrightarrow> looks_only (call reply ev)"
  unfolding looks_only_def call_def
  by (intro allI exI [of _ "[ev]"]) simp

lemma looks_only_bind:
  assumes "looks_only m" and "\<And>x. looks_only (f x)"
  shows "looks_only (io_bind m f)"
  unfolding looks_only_def
proof
  fix s
  obtain t where t: "snd (m s) = s\<lparr>trace := trace s @ t\<rparr>" "\<forall>ev \<in> set t. lookup_event ev"
    using assms(1) unfolding looks_only_def by blast
  show "\<exists>t. snd (io_bind m f s) = s\<lparr>trace := trace s @ t\<rparr> \<and> (\<forall>ev \<in> set t. lookup_event ev)"
  proof (cases "fst (m s)")
    case (Inl e)
    then have "io_bind m f s = (Inl e, snd (m s))"
      by (cases "m s") (simp add: io_bind_def)
    then show ?thesis using t by auto
  next
    case (Inr x)
    then have b: "io_bind m f s = f x (snd (m s))"
      by (cases "m s") (simp add: io_bind_def)
    obtain t' where t': "snd (f x (snd (m s))) = (snd (m s))\<lparr>trace := trace (snd (m s)) @ t'\<rparr>"
        "\<forall>ev \<in> set t'. lookup_event ev"
      using assms(2) [of x] unfolding looks_only_def by blast
    have "snd (io_bind m f s) = s\<lparr>trace := trace s @ (t @ t')\<rparr>"
      using t(1) t'(1) b by simp
    moreover have "\<forall>ev \<in> set (t @ t'). lookup_event ev"
      using t(2) t'(2) by auto
    ultimately show ?thesis by blast
  qed
qed

lemma looks_only_catch:
  assumes "looks_only m" and "\<And>e. looks_only (h e)"
  shows "looks_only (io_catch m h)"
  unfolding looks_only_def
proof
  fix s
  obtain t where t: "snd (m s) = s\<lparr>trace := trace s @ t\<rparr>" "\<forall>ev \<in> set t. lookup_event ev"
    using assms(1) unfolding looks_only_def by blast
  show "\<exists>t. snd (io_catch m h s) = s\<lparr>trace := trace s @ t\<rparr> \<and> (\<forall>ev \<in> set t. lookup_event ev)"
  proof (cases "fst (m s)")
    case (Inr x)
    then have "io_catch m h s = (Inr x, snd (m s))"
      by (cases "m s") (simp add: io_catch_def)
    then show ?thesis using t by auto
  next
    case (Inl e)
    then have b: "io_catch m h s = h e (snd (m s))"
      by (cases "m s") (simp add: io_catch_def)
    obtain t' where t': "snd (h e (snd (m s))) = (snd (m s))\<lparr>trace := trace (snd (m s)) @ t'\<rparr>"
        "\<forall>ev \<in> set t'. lookup_event ev"
      using assms(2) [of e] unfolding looks_only_def by blast
    have "snd (io_catch m h s) = s\<lparr>trace := trace s @ (t @ t')\<rparr>"
      using t(1) t'(1) b by simp
    moreover have "\<forall>ev \<in> set (t @ t'). lookup_event ev"
      using t(2) t'(2) by auto
    ultimately show ?thesis by blast
  qed
qed

lemma looks_only_if:
  "(c \<Longrightarrow> looks_only m) \<Longrightarrow> (\<not> c \<Longrightarrow> looks_only n) \<Longrightarrow> looks_only (if c then m else n)"
  by simp

lemma looks_only_option:
  "(x = None \<Longrightarrow> looks_only m) \<Longrightarrow> (\<And>y. x = Some y \<Longrightarrow> looks_only (f y))
   \<Longrightarrow> looks_only (case x of Some y \<Rightarrow> f y | None \<Rightarrow> m)"
  by (cases x) simp_all

text \<open>A query that finds no element is followed by no \<^verbatim>\<open>fill\<close>.\<close>

lemma fill_if_found_looks:
  assumes "\<forall>h el. query_reply E (h @ [ev]) \<noteq> Inr (Some el)" and "lookup_event ev"
  shows "looks_only (fill_if_found E (call (query_reply E) ev) v)"
  unfolding looks_only_def
proof
  fix s :: state
  have "query_reply E (trace s @ [ev]) \<noteq> Inr (Some el)" for el
    using assms(1) by blast
  then have "snd (fill_if_found E (call (query_reply E) ev) v s) = s\<lparr>trace := trace s @ [ev]\<rparr>"
    by (cases "query_reply E (trace s @ [ev])")
       (auto simp: fill_if_found_def io_bind_def call_def io_return_def split: option.splits)
  then show "\<exists>t. snd (fill_if_found E (call (query_reply E) ev) v s) = s\<lparr>trace := trace s @ t\<rparr>
               \<and> (\<forall>ev \<in> set t. lookup_event ev)"
    using assms(2) by (intro exI [of _ "[ev]"]) simp
qed

lemma attribute_selector_no_label: "attribute_selector attr text \<noteq> label_selector label"
  by (simp add: attribute_selector_def label_selector_def u_def)

lemma id_selector_no_label: \<open>u ''#'' @ target \<noteq> label_selector label\<close>
  by (simp add: label_selector_def u_def)

lemma fillField_variant_looks:
  assumes "\<forall>h ev el. query_reply E (h @ [ev]) = Inr (Some el)
             \<longrightarrow> (\<exists>q l. ev = Query q (label_selector l))"
  shows "looks_only (fillField_variant E p label v)"
proof -
  have n: "\<forall>h el. query_reply E (h @ [ev]) \<noteq> Inr (Some el)"
    if "\<And>q l. ev \<noteq> Query q (label_selector l)" for ev
    using assms that by blast
  have a: "looks_only (fill_if_found E (call (query_reply E) (Query p (attribute_selector attr x))) v)"
    for attr x
    by (rule fill_if_found_looks [OF n]) (simp_all add: attribute_selector_no_label lookup_event_def)
  have b: "looks_only (fill_if_found E (call (query_reply E) (Query p (u ''#'' @ target))) v)"
    for target
    by (rule fill_if_found_looks [OF n]) (simp_all add: id_selector_no_label lookup_event_def)
  have c: "looks_only (fill_if_found E (call (query_reply E) (ElementQuery l input_near_label)) v)"
    for l
    by (rule fill_if_found_looks [OF n]) (simp_all add: lookup_event_def)
  show ?thesis
    unfolding fillField_variant_def
    by (intro looks_only_bind looks_only_if looks_only_option looks_only_return looks_only_call
          a b c)
       (simp_all add: lookup_event_def)
qed

lemma fillField_looks:
  assumes "\<forall>h ev el. query_reply E (h @ [ev]) = Inr (Some el)
             \<longrightarrow> (\<exists>q l. ev = Query q (label_selector l))"
  shows "looks_only (fillField E p labels v)"
proof (induction labels)
  case Nil
  then show ?case by (simp add: looks_only_return)
next
  case (Cons label labels)
  show ?case
    unfolding fillField.simps
    by (intro looks_only_bind looks_only_catch looks_only_if looks_only_return
          fillField_variant_looks [OF assms] Cons.IH)
qed

lemma fillField_only_looks:
  assumes "\<forall>h ev el. query_reply E (h @ [ev]) = Inr (Some el)
             \<longrightarrow> (\<exists>q l. ev = Query q (label_selector l))"
  shows "\<exists>t. fillField E p labels v s = (Inr (), s\<lparr>trace := trace s @ t\<rparr>)
           \<and> (\<forall>ev \<in> set t. lookup_event ev)"
proof -
  obtain s1 where r: "fillField E p labels v s = (Inr (), s1)"
    using fillField_returns by blast
  obtain t where "snd (fillField E p labels v s) = s\<lparr>trace := trace s @ t\<rparr>"
      "\<forall>ev \<in> set t. lookup_event ev"
    using fillField_looks [OF assms] unfolding looks_only_def by blast
  then show ?thesis using r by auto
qed

text \<open>
  Claim C7.  (1) \<^verbatim>\<open>fillField\<close> returns normally for every list of label variants, every
  value, every state and every behaviour of the page: it never throws.  (2) On a page
  where every query answers that there is no such element, it asks its six queries for each
  variant in turn and changes nothing else: nothing is filled or clicked, and the session
  file and the client are as before.  (3) On every page where no query for a control finds
  an element (the only queries that find one are those for a label text; a query may also
  throw, and a label may have any \<^verbatim>\<open>for\<close> attribute or none), it returns normally having
  only looked: what it adds to the history are queries and attribute reads, nothing is
  filled or clicked, and the session file and the client are as before.
\<close>

theorem C7_fill_never_throws:
  "(\<forall>E p labels v s. \<exists>s1. fillField E p labels v s = (Inr (), s1))
   \<and> (\<forall>E p labels v s.
        (\<forall>h. query_reply E h = Inr None)
        \<longrightarrow> fillField E p labels v s =
            (Inr (),
             s\<lparr>trace := trace s @ concat (map (\<lambda>label.
                [Query p (attribute_selector ''aria-label'' label),
                 Query p (attribute_selector ''placeholder'' label),
                 Query p (label_selector label),
                 Query p (attribute_selector ''name'' (nameVariantOf E label)),
                 Query p (attribute_selector ''id'' (nameVariantOf E label)),
                 Query p (attribute_selector ''data-testid'' (nameVariantOf E label))]) labels)\<rparr>))
   \<and> (\<forall>E p labels v s.
        (\<forall>h ev el. query_reply E (h @ [ev]) = Inr (Some el)
            \<longrightarrow> (\<exists>q l. ev = Query q (label_selector l)))
        \<longrightarrow> (\<exists>t. fillField E p labels v s = (Inr (), s\<lparr>trace := trace s @ t\<rparr>)
               \<and> (\<forall>ev \<in> set t. lookup_event ev)))"
  using fillField_returns fillField_no_match fillField_only_looks by blast

theorem C7_fill_never_throws_witness:
  "fillField calm_env 7 [u ''Town''] (u ''York'') (new_client None) =
     (Inr (),
      (new_client None)
        \<lparr>trace :=
           [Query 7 (attribute_selector ''aria-label'' (u ''Town'')),
            Query 7 (attribute_selector ''placeholder'' (u ''Town'')),
            Query 7 (label_selector (u ''Town'')),
            Query 7 (attribute_selector ''name'' (u ''town'')),
            Query 7 (attribute_selector ''id'' (u ''town'')),
            Query 7 (attribute_selector ''data-testid'' (u ''town''))]\<rparr>)
   \<and> fillField label_only_env 7 [u ''Town''] (u ''York'') (new_client None) =
     (Inr (),
      (new_client None)
        \<lparr>trace :=
           [Query 7 (attribute_selector ''aria-label'' (u ''Town'')),
            Query 7 (attribute_selector ''placeholder'' (u ''Town'')),
            Query 7 (label_selector (u ''Town'')),
            GetAttribute 5 (u ''for''),
            Query 7 (u ''#'' @ u ''town-input''),
            ElementQuery 5 input_near_label,
            Query 7 (attribute_selector ''name'' (u ''town'')),
            Query 7 (attribute_selector ''id'' (u ''town'')),
            Query 7 (attribute_selector ''data-testid'' (u ''town''))]\<rparr>)"
proof -
  have a: "\<forall>h. query_reply calm_env h = Inr None"
    by (simp add: calm_env_def)
  have b: "\<forall>h ev el. query_reply label_only_env (h @ [ev]) = Inr (Some el)
             \<longrightarrow> (\<exists>q l. ev = Query q (label_selector l))"
    by (auto simp: label_only_env_def calm_env_def split: if_splits)
  have n: "nameVariantOf calm_env (u ''Town'') = u ''town''"
    by (simp add: nameVariantOf_def calm_env_def is_space_def u_def)
  from C7_fill_never_throws a
  have p2: "fillField calm_env 7 [u ''Town''] (u ''York'') (new_client None) =
            (Inr (),
             (new_client None)\<lparr>trace := trace (new_client None) @ concat (map (\<lambda>label.
                [Query 7 (attribute_selector ''aria-label'' label),
                 Query 7 (attribute_selector ''placeholder'' label),
                 Query 7 (label_selector label),
                 Query 7 (attribute_selector ''name'' (nameVariantOf calm_env label)),
                 Query 7 (attribute_selector ''id'' (nameVariantOf calm_env label)),
                 Query 7 (attribute_selector ''data-testid'' (nameVariantOf calm_env label))])
                [u ''Town''])\<rparr>)"
    by blast
  from C7_fill_never_throws b
  obtain t where p3: "fillField label_only_env 7 [u ''Town''] (u ''York'') (new_client None)
      = (Inr (), (new_client None)\<lparr>trace := trace (new_client None) @ t\<rparr>)"
    by blast
  have "trace (snd (fillField label_only_env 7 [u ''Town''] (u ''York'') (new_client None))) =
           [Query 7 (attribute_selector ''aria-label'' (u ''Town'')),
            Query 7 (attribute_selector ''placeholder'' (u ''Town'')),
            Query 7 (label_selector (u ''Town'')),
            GetAttribute 5 (u ''for''),
            Query 7 (u ''#'' @ u ''town-input''),
            ElementQuery 5 input_near_label,
            Query 7 (attribute_selector ''name'' (u ''town'')),
            Query 7 (attribute_selector ''id'' (u ''town'')),
            Query 7 (attribute_selector ''data-testid'' (u ''town''))]"
    by (simp add: fillField_variant_def fill_if_found_def io_bind_def io_catch_def call_def
        io_return_def nameVariantOf_def is_space_def label_only_env_def calm_env_def
        new_client_def label_selector_def
        attribute_selector_def input_near_label_def u_def)
  then have "t =
           [Query 7 (attribute_selector ''aria-label'' (u ''Town'')),
            Query 7 (attribute_selector ''placeholder'' (u ''Town'')),
            Query 7 (label_selector (u ''Town'')),
            GetAttribute 5 (u ''for''),
            Query 7 (u ''#'' @ u ''town-input''),
            ElementQuery 5 input_near_label,
            Query 7 (attribute_selector ''name'' (u ''town'')),
            Query 7 (attribute_selector ''id'' (u ''town'')),
            Query 7 (attribute_selector ''data-testid'' (u ''town''))]"
    unfolding p3 by (simp add: new_client_def)
  with p2 p3 show ?thesis by (simp add: n new_client_def)
qed

section \<open>Reset\<close>

lemma reset_returns: "\<exists>r s1. reset E s = (Inr r, s1)"
  by (auto simp: reset_def io_catch_def io_bind_def io_return_def call_def modify_def
      existsSession_def unlinkSession_def split: option.splits sum.splits prod.splits)

lemma reset_clean:
  assumes "case this_browser s of None \<Rightarrow> True
           | Some b \<Rightarrow> unit_reply E (trace s @ [BrowserClose b]) = Inr ()"
    and "session_file s = None
         \<or> unlink_reply E
              (trace s @ (case this_browser s of None \<Rightarrow> [] | Some b \<Rightarrow> [BrowserClose b]))
            = Inr ()"
  shows "fst (reset E s) = Inr reset_succeeded
         \<and> session_file (snd (reset E s)) = None
         \<and> this_browser (snd (reset E s)) = None
         \<and> trace (snd (reset E s))
             = trace s @ (case this_browser s of None \<Rightarrow> [] | Some b \<Rightarrow> [BrowserClose b])"
  using assms
  by (auto simp: reset_def io_catch_def io_bind_def io_return_def call_def modify_def
      existsSession_def unlinkSession_def split: option.splits)

lemma reset_nothing_to_do:
  assumes "this_browser s = None" and "session_file s = None"
  shows "reset E s = (Inr reset_succeeded, s)"
  using assms
  by (simp add: reset_def io_catch_def io_bind_def io_return_def existsSession_def)

lemma reset_close_fault:
  assumes "this_browser s = Some b" and "unit_reply E (trace s @ [BrowserClose b]) = Inl e"
  shows "reset E s =
            (Inr (empty_result\<lparr>error := Some True,
                    message := Some (u ''Reset failed: '' @ e)\<rparr>),
             s\<lparr>trace := trace s @ [BrowserClose b]\<rparr>)"
  using assms
  by (simp add: reset_def io_catch_def io_bind_def io_return_def call_def)

lemma reset_unlink_fault:
  assumes "case this_browser s of None \<Rightarrow> True
           | Some b \<Rightarrow> unit_reply E (trace s @ [BrowserClose b]) = Inr ()"
    and "session_file s = Some content"
    and "unlink_reply E
           (trace s @ (case this_browser s of None \<Rightarrow> [] | Some b \<Rightarrow> [BrowserClose b]))
         = Inl e"
  shows "reset E s =
            (Inr (empty_result\<lparr>error := Some True,
                    message := Some (u ''Reset failed: '' @ e)\<rparr>),
             (case this_browser s of
                None \<Rightarrow> s
              | Some b \<Rightarrow> s\<lparr>trace := trace s @ [BrowserClose b],
                            this_browser := None, this_context := None, this_page := None\<rparr>))"
  using assms
  by (auto simp: reset_def io_catch_def io_bind_def io_return_def call_def modify_def
      existsSession_def unlinkSession_def split: option.splits)

text \<open>
  Claim C8, as the code has it.  (1) \<^verbatim>\<open>reset\<close> never throws.  (2) When closing the
  browser that the client holds succeeds (or it holds none) and deleting the session file
  succeeds (or there is none), \<^verbatim>\<open>reset\<close> returns success, the session file is gone, the
  client holds no browser, the one call made is the closing of the held browser (no call at
  all when none is held: a browser that only the session file names is not contacted), and
  a second \<^verbatim>\<open>reset\<close> changes nothing and returns success again.  (3) With no held
  browser and no session file it changes nothing and returns success.  (4) When closing
  the held browser throws, \<^verbatim>\<open>reset\<close> returns the failure result with the message of
  the fault and touches nothing else: the session file stays.  (5) When the deletion of the
  session file throws, after a successful closing if a browser was held, \<^verbatim>\<open>reset\<close>
  returns the failure result with the message of the fault, and the session file stays.
\<close>

theorem C8_reset:
  "(\<forall>E s. \<exists>r s1. reset E s = (Inr r, s1))
   \<and> (\<forall>E s.
        (case this_browser s of None \<Rightarrow> True
         | Some b \<Rightarrow> unit_reply E (trace s @ [BrowserClose b]) = Inr ())
        \<and> (session_file s = None
           \<or> unlink_reply E
                (trace s @ (case this_browser s of None \<Rightarrow> [] | Some b \<Rightarrow> [BrowserClose b]))
              = Inr ())
        \<longrightarrow> fst (reset E s) = Inr reset_succeeded
            \<and> session_file (snd (reset E s)) = None
            \<and> this_browser (snd (reset E s)) = None
            \<and> trace (snd (reset E s))
                = trace s @ (case this_browser s of None \<Rightarrow> [] | Some b \<Rightarrow> [BrowserClose b])
            \<and> reset E (snd (reset E s)) = (Inr reset_succeeded, snd (reset E s)))
   \<and> (\<forall>E s. this_browser s = None \<and> session_file s = None
        \<longrightarrow> reset E s = (Inr reset_succeeded, s))
   \<and> (\<forall>E s b e.
        this_browser s = Some b \<and> unit_reply E (trace s @ [BrowserClose b]) = Inl e
        \<longrightarrow> reset E s =
            (Inr (empty_result\<lparr>error := Some True,
                    message := Some (u ''Reset failed: '' @ e)\<rparr>),
             s\<lparr>trace := trace s @ [BrowserClose b]\<rparr>))
   \<and> (\<forall>E s content e.
        (case this_browser s of None \<Rightarrow> True
         | Some b \<Rightarrow> unit_reply E (trace s @ [BrowserClose b]) = Inr ())
        \<and> session_file s = Some content
        \<and> unlink_reply E
             (trace s @ (case this_browser s of None \<Rightarrow> [] | Some b \<Rightarrow> [BrowserClose b]))
           = Inl e
        \<longrightarrow> reset E s =
            (Inr (empty_result\<lparr>error := Some True,
                    message := Some (u ''Reset failed: '' @ e)\<rparr>),
             (case this_browser s of
                None \<Rightarrow> s
              | Some b \<Rightarrow> s\<lparr>trace := trace s @ [BrowserClose b],
                            this_browser := None, this_context := None, this_page := None\<rparr>))
          \<and> session_file (snd (reset E s)) = Some content)"
proof (rule conjI [OF _ conjI [OF _ conjI [OF _ conjI]]]; intro allI impI)
  fix E s
  show "\<exists>r s1. reset E s = (Inr r, s1)" by (rule reset_returns)
next
  fix E :: env and s :: state
  assume h: "(case this_browser s of None \<Rightarrow> True
         | Some b \<Rightarrow> unit_reply E (trace s @ [BrowserClose b]) = Inr ())
        \<and> (session_file s = None
           \<or> unlink_reply E
                (trace s @ (case this_browser s of None \<Rightarrow> [] | Some b \<Rightarrow> [BrowserClose b]))
              = Inr ())"
  have first: "fst (reset E s) = Inr reset_succeeded
         \<and> session_file (snd (reset E s)) = None
         \<and> this_browser (snd (reset E s)) = None
         \<and> trace (snd (reset E s))
             = trace s @ (case this_browser s of None \<Rightarrow> [] | Some b \<Rightarrow> [BrowserClose b])"
    using h by (intro reset_clean) simp_all
  then have "reset E (snd (reset E s)) = (Inr reset_succeeded, snd (reset E s))"
    by (intro reset_nothing_to_do) simp_all
  with first show "fst (reset E s) = Inr reset_succeeded
            \<and> session_file (snd (reset E s)) = None
            \<and> this_browser (snd (reset E s)) = None
            \<and> trace (snd (reset E s))
                = trace s @ (case this_browser s of None \<Rightarrow> [] | Some b \<Rightarrow> [BrowserClose b])
            \<and> reset E (snd (reset E s)) = (Inr reset_succeeded, snd (reset E s))"
    by simp
next
  fix E :: env and s :: state
  assume "this_browser s = None \<and> session_file s = None"
  then show "reset E s = (Inr reset_succeeded, s)"
    using reset_nothing_to_do by blast
next
  fix E :: env and s :: state and b e
  assume "this_browser s = Some b \<and> unit_reply E (trace s @ [BrowserClose b]) = Inl e"
  then show "reset E s =
            (Inr (empty_result\<lparr>error := Some True,
                    message := Some (u ''Reset failed: '' @ e)\<rparr>),
             s\<lparr>trace := trace s @ [BrowserClose b]\<rparr>)"
    using reset_close_fault by blast
next
  fix E :: env and s :: state and content e
  assume h: "(case this_browser s of None \<Rightarrow> True
         | Some b \<Rightarrow> unit_reply E (trace s @ [BrowserClose b]) = Inr ())
        \<and> session_file s = Some content
        \<and> unlink_reply E
             (trace s @ (case this_browser s of None \<Rightarrow> [] | Some b \<Rightarrow> [BrowserClose b]))
           = Inl e"
  have r: "reset E s =
            (Inr (empty_result\<lparr>error := Some True,
                    message := Some (u ''Reset failed: '' @ e)\<rparr>),
             (case this_browser s of
                None \<Rightarrow> s
              | Some b \<Rightarrow> s\<lparr>trace := trace s @ [BrowserClose b],
                            this_browser := None, this_context := None, this_page := None\<rparr>))"
    using h by (intro reset_unlink_fault) simp_all
  have "session_file (snd (reset E s)) = Some content"
    unfolding r using h by (simp split: option.splits)
  with r show "reset E s =
            (Inr (empty_result\<lparr>error := Some True,
                    message := Some (u ''Reset failed: '' @ e)\<rparr>),
             (case this_browser s of
                None \<Rightarrow> s
              | Some b \<Rightarrow> s\<lparr>trace := trace s @ [BrowserClose b],
                            this_browser := None, this_context := None, this_page := None\<rparr>))
          \<and> session_file (snd (reset E s)) = Some content"
    by simp
qed

theorem C8_reset_witness:
  "fst (reset calm_env ((new_client (Some (Descriptor (old_session True True True))))\<lparr>this_browser := Some 1\<rparr>))
     = Inr reset_succeeded
   \<and> session_file (snd (reset calm_env
        ((new_client (Some (Descriptor (old_session True True True))))\<lparr>this_browser := Some 1\<rparr>))) = None
   \<and> trace (snd (reset calm_env
        ((new_client (Some (Descriptor (old_session True True True))))\<lparr>this_browser := Some 1\<rparr>)))
       = [BrowserClose 1]
   \<and> reset calm_env (snd (reset calm_env
        ((new_client (Some (Descriptor (old_session True True True))))\<lparr>this_browser := Some 1\<rparr>)))
       = (Inr reset_succeeded, snd (reset calm_env
        ((new_client (Some (Descriptor (old_session True True True))))\<lparr>this_browser := Some 1\<rparr>)))
   \<and> reset calm_env (new_client None) = (Inr reset_succeeded, new_client None)
   \<and> reset (calm_env\<lparr>unit_reply := \<lambda>h. Inl (u ''Target closed'')\<rparr>)
        ((new_client (Some (Descriptor (old_session True True True))))\<lparr>this_browser := Some 1\<rparr>)
       = (Inr (empty_result\<lparr>error := Some True,
                 message := Some (u ''Reset failed: '' @ u ''Target closed'')\<rparr>),
          (new_client (Some (Descriptor (old_session True True True))))
            \<lparr>this_browser := Some 1, trace := [BrowserClose 1]\<rparr>)
   \<and> reset (calm_env\<lparr>unlink_reply := \<lambda>h. Inl (u ''EPERM: operation not permitted'')\<rparr>)
        ((new_client (Some (Descriptor (old_session True True True))))\<lparr>this_browser := Some 1\<rparr>)
       = (Inr (empty_result\<lparr>error := Some True,
                 message := Some (u ''Reset failed: '' @ u ''EPERM: operation not permitted'')\<rparr>),
          (new_client (Some (Descriptor (old_session True True True))))
            \<lparr>trace := [BrowserClose 1]\<rparr>)"
proof -
  let ?s = "(new_client (Some (Descriptor (old_session True True True))))\<lparr>this_browser := Some 1\<rparr>"
  let ?F = "calm_env\<lparr>unit_reply := \<lambda>h. Inl (u ''Target closed'')\<rparr>"
  let ?G = "calm_env\<lparr>unlink_reply := \<lambda>h. Inl (u ''EPERM: operation not permitted'')\<rparr>"
  have a: "(case this_browser ?s of None \<Rightarrow> True
         | Some b \<Rightarrow> unit_reply calm_env (trace ?s @ [BrowserClose b]) = Inr ())
        \<and> (session_file ?s = None
           \<or> unlink_reply calm_env
                (trace ?s @ (case this_browser ?s of None \<Rightarrow> [] | Some b \<Rightarrow> [BrowserClose b]))
              = Inr ())"
    by (simp add: new_client_def calm_env_def)
  have b: "this_browser (new_client None) = None \<and> session_file (new_client None) = None"
    by (simp add: new_client_def)
  have c: "this_browser ?s = Some 1
      \<and> unit_reply ?F (trace ?s @ [BrowserClose 1]) = Inl (u ''Target closed'')"
    by (simp add: new_client_def calm_env_def)
  have d: "(case this_browser ?s of None \<Rightarrow> True
         | Some b \<Rightarrow> unit_reply ?G (trace ?s @ [BrowserClose b]) = Inr ())
        \<and> session_file ?s = Some (Descriptor (old_session True True True))
        \<and> unlink_reply ?G
             (trace ?s @ (case this_browser ?s of None \<Rightarrow> [] | Some b \<Rightarrow> [BrowserClose b]))
           = Inl (u ''EPERM: operation not permitted'')"
    by (simp add: new_client_def calm_env_def)
  from C8_reset a
  have "fst (reset calm_env ?s) = Inr reset_succeeded
            \<and> session_file (snd (reset calm_env ?s)) = None
            \<and> this_browser (snd (reset calm_env ?s)) = None
            \<and> trace (snd (reset calm_env ?s))
                = trace ?s @ (case this_browser ?s of None \<Rightarrow> [] | Some b \<Rightarrow> [BrowserClose b])
            \<and> reset calm_env (snd (reset calm_env ?s)) = (Inr reset_succeeded, snd (reset calm_env ?s))"
    by blast
  moreover from C8_reset b
  have "reset calm_env (new_client None) = (Inr reset_succeeded, new_client None)"
    by blast
  moreover from C8_reset c
  have "reset ?F ?s =
            (Inr (empty_result\<lparr>error := Some True,
                    message := Some (u ''Reset failed: '' @ u ''Target closed'')\<rparr>),
             ?s\<lparr>trace := trace ?s @ [BrowserClose 1]\<rparr>)"
    by blast
  moreover from C8_reset d
  have "reset ?G ?s =
            (Inr (empty_result\<lparr>error := Some True,
                    message := Some (u ''Reset failed: '' @ u ''EPERM: operation not permitted'')\<rparr>),
             (case this_browser ?s of
                None \<Rightarrow> ?s
              | Some b \<Rightarrow> ?s\<lparr>trace := trace ?s @ [BrowserClose b],
                            this_browser := None, this_context := None, this_page := None\<rparr>))"
    by blast
  ultimately show ?thesis by (simp add: new_client_def)
qed

text \<open>The claim as stated fails.  When closing the held browser throws, \<^verbatim>\<open>reset\<close>
  reports a failure and the session file stays.  When the deletion of the session file
  throws, \<^verbatim>\<open>reset\<close> reports a failure, the browser is closed and the session file
  stays.  And a client that holds no browser, as every new client does, deletes the session
  file without a call to the browser the file names.\<close>

theorem C8_close_fault_counterexample:
  "fst (reset (calm_env\<lparr>unit_reply := \<lambda>h. Inl (u ''Target closed'')\<rparr>)
          ((new_client (Some (Descriptor (old_session True True True))))\<lparr>this_browser := Some 1\<rparr>))
     = Inr (empty_result\<lparr>error := Some True,
              message := Some (u ''Reset failed: '' @ u ''Target closed'')\<rparr>)
   \<and> session_file (snd (reset (calm_env\<lparr>unit_reply := \<lambda>h. Inl (u ''Target closed'')\<rparr>)
          ((new_client (Some (Descriptor (old_session True True True))))\<lparr>this_browser := Some 1\<rparr>)))
     = Some (Descriptor (old_session True True True))
   \<and> fst (reset (calm_env\<lparr>unlink_reply := \<lambda>h. Inl (u ''EPERM: operation not permitted'')\<rparr>)
          ((new_client (Some (Descriptor (old_session True True True))))\<lparr>this_browser := Some 1\<rparr>))
     = Inr (empty_result\<lparr>error := Some True,
              message := Some (u ''Reset failed: '' @ u ''EPERM: operation not permitted'')\<rparr>)
   \<and> session_file (snd (reset (calm_env\<lparr>unlink_reply := \<lambda>h. Inl (u ''EPERM: operation not permitted'')\<rparr>)
          ((new_client (Some (Descriptor (old_session True True True))))\<lparr>this_browser := Some 1\<rparr>)))
     = Some (Descriptor (old_session True True True))
   \<and> trace (snd (reset (calm_env\<lparr>unlink_reply := \<lambda>h. Inl (u ''EPERM: operation not permitted'')\<rparr>)
          ((new_client (Some (Descriptor (old_session True True True))))\<lparr>this_browser := Some 1\<rparr>)))
     = [BrowserClose 1]
   \<and> reset calm_env (new_client (Some (Descriptor (old_session True True True))))
     = (Inr reset_succeeded, new_client None)
   \<and> trace (new_client None) = []"
  by (simp add: reset_def run_defs calm_env_def new_client_def)

end
